theory Spec2Isabelle
  imports Main
begin

section \<open>Big Brother: the watch list of \<open>bot/cogs/watchchannels/bigbrother.py\<close>\<close>

text \<open>
  The cog keeps a process-local dictionary \<open>watched_users\<close> of the users whose messages
  are relayed, backed by the infraction records of a remote API. \<open>apply_watch\<close> and
  \<open>apply_unwatch\<close> are embedded as functions on an explicit state: the backend's table,
  the dictionary, and the chronological trace of the effects performed (backend calls,
  dictionary mutations, messages sent to the invoking channel).
\<close>

subsection \<open>Data model\<close>

text \<open>
  An infraction as the backend stores it. \<open>kind\<close> is the record's \<open>type\<close> (the table is
  shared with bans, mutes and so on). The position of a row in the table is its primary
  key, and rows are kept oldest first, so the position also stands for \<open>inserted_at\<close>.
\<close>

record watch_fields =
  subjectId :: int
  active :: bool
  kind :: string
  reason :: string
  hidden :: bool

text \<open>An infraction as the API returns it: the stored fields and the record's id.\<close>

record WatchRecord = watch_fields +
  record_id :: nat

text \<open>The user a command is about: \<open>user.id\<close>, \<open>user.bot\<close> and \<open>str(user)\<close>.\<close>

record member =
  member_id :: int
  bot :: bool
  member_str :: string

text \<open>The invocation context: only \<open>ctx.author\<close> (as formatted) is read.\<close>

record Context =
  author :: string

datatype error = ValueError | BackendError

datatype outcome = Returned | Raised error

text \<open>Filter of a backend query: \<open>user__id\<close> (optional), \<open>active\<close> and \<open>type\<close>.\<close>

record params =
  user__id :: "int option"
  p_active :: bool
  p_type :: string

text \<open>
  The effects of an operation, in program order. \<open>Refreshed ok\<close> is a call of
  \<open>fetch_user_cache\<close> and its result, \<open>Posted f r\<close> a call of \<open>post_infraction\<close> with the
  record it was asked to create and the response, \<open>PostFailed f\<close> such a call that
  failed outright, \<open>Queried p\<close> an \<open>api_client.get\<close> that returned, \<open>QueryFailed p\<close> one
  that failed outright, \<open>Patched i a ok\<close> an \<open>api_client.patch\<close> of record \<open>i\<close> to
  \<open>active = a\<close> and whether it completed, \<open>CachePut\<close> and \<open>CacheRemoved\<close> the two
  direct mutations of \<open>watched_users\<close>, and \<open>Sent\<close> a \<open>ctx.send\<close>.
\<close>

datatype event =
    Refreshed bool
  | Posted watch_fields "WatchRecord option"
  | PostFailed watch_fields
  | Queried params
  | QueryFailed params
  | Patched nat bool bool
  | CachePut int WatchRecord
  | CacheRemoved int
  | Sent string

record state =
  backend :: "watch_fields list"
  watched_users :: "int \<rightharpoonup> WatchRecord"
  trace :: "event list"

text \<open>
  What a create can answer: the new record, nothing (line 99 calls it an empty response),
  or no answer at all because the call failed outright.
\<close>

datatype reply = Created | Empty | Failed

text \<open>
  What the backend does in one invocation: whether \<open>fetch_user_cache\<close> succeeds, what
  \<open>post_infraction\<close> answers, whether the query for the history returns and whether the
  patch completes. A call that fails outright raises in the operation, which has no
  handler. The query that opens \<open>apply_unwatch\<close> is taken to return: when it fails, the
  operation raises before it has had any effect.
\<close>

record responses =
  refresh_ok :: bool
  post_reply :: reply
  history_ok :: bool
  patch_ok :: bool

subsection \<open>The backend record client\<close>

definition with_id :: "nat \<Rightarrow> watch_fields \<Rightarrow> WatchRecord" where
  "with_id i f =
     \<lparr>subjectId = subjectId f, active = active f, kind = kind f, reason = reason f,
      hidden = hidden f, record_id = i\<rparr>"

definition with_ids :: "watch_fields list \<Rightarrow> WatchRecord list" where
  "with_ids rows = map (\<lambda>i. with_id i (rows ! i)) [0..<length rows]"

definition matches :: "params \<Rightarrow> WatchRecord \<Rightarrow> bool" where
  "matches p r \<longleftrightarrow>
     (case user__id p of None \<Rightarrow> True | Some u \<Rightarrow> subjectId r = u) \<and>
     active r = p_active p \<and> kind r = p_type p"

text \<open>
  Modelled from the spec: the backend client's \<open>query(filter)\<close> (\<open>bot/api.py\<close> is not
  among the sources). Filter keys are the subject (exact), \<open>active\<close> and the kind; the
  result is ordered newest first.
\<close>

definition query :: "params \<Rightarrow> watch_fields list \<Rightarrow> WatchRecord list" where
  "query p rows = rev (filter (matches p) (with_ids rows))"

text \<open>
  Modelled from the spec: the backend client's \<open>create(record)\<close>, which persists a new
  record and returns it, or returns nothing when the write failed, or fails outright; in
  the last two cases nothing is stored.
\<close>

definition create ::
  "reply \<Rightarrow> watch_fields \<Rightarrow> watch_fields list \<Rightarrow> (error + WatchRecord option) \<times> watch_fields list" where
  "create answer f rows =
     (case answer of
        Created \<Rightarrow> (Inr (Some (with_id (length rows) f)), rows @ [f])
      | Empty \<Rightarrow> (Inr None, rows)
      | Failed \<Rightarrow> (Inl BackendError, rows))"

text \<open>
  Modelled from the spec: the backend client's \<open>patch(recordId, {active})\<close>, which
  returns nothing or an error. It fails when the backend does not complete the call and
  for an id the table does not have, and then changes nothing.
\<close>

definition patch :: "bool \<Rightarrow> nat \<Rightarrow> bool \<Rightarrow> watch_fields list \<Rightarrow> watch_fields list option" where
  "patch ok i a rows =
     (if ok \<and> i < length rows then Some (rows[i := (rows ! i)\<lparr>active := a\<rparr>]) else None)"

text \<open>What a patch of record \<open>i\<close> to \<open>active = False\<close> does to the records the API returns.\<close>

definition deactivate :: "nat \<Rightarrow> WatchRecord \<Rightarrow> WatchRecord" where
  "deactivate i r = (if record_id r = i then r\<lparr>active := False\<rparr> else r)"

subsection \<open>Effects\<close>

definition log_event :: "event \<Rightarrow> state \<Rightarrow> state" where
  "log_event e st = st\<lparr>trace := trace st @ [e]\<rparr>"

text \<open>\<open>ctx.send(msg)\<close>.\<close>

definition send :: "string \<Rightarrow> state \<Rightarrow> state" where
  "send msg st = log_event (Sent msg) st"

text \<open>\<open>self.api_default_params\<close>, lines 24-25.\<close>

definition api_default_params :: params where
  "api_default_params = \<lparr>user__id = None, p_active = True, p_type = ''watch''\<rparr>"

text \<open>\<open>self.bot.api_client.get(self.api_endpoint, params=...)\<close>, which returns the records
  or fails outright.\<close>

definition api_get :: "bool \<Rightarrow> params \<Rightarrow> state \<Rightarrow> (error + WatchRecord list) \<times> state" where
  "api_get ok p st =
     (if ok then (Inr (query p (backend st)), log_event (Queried p) st)
      else (Inl BackendError, log_event (QueryFailed p) st))"

text \<open>\<open>self.bot.api_client.patch(f"{self.api_endpoint}/{id}", json={'active': a})\<close>.\<close>

definition api_patch :: "bool \<Rightarrow> nat \<Rightarrow> bool \<Rightarrow> state \<Rightarrow> error option \<times> state" where
  "api_patch ok i a st =
     (case patch ok i a (backend st) of
        None \<Rightarrow> (Some BackendError, log_event (Patched i a False) st)
      | Some rows \<Rightarrow> (None, log_event (Patched i a True) (st\<lparr>backend := rows\<rparr>)))"

text \<open>
  Modelled from the spec: \<open>post_infraction\<close> of \<open>bot/cogs/moderation/utils.py\<close>, not
  among the sources, as the backend's \<open>create\<close> of a record for the user with the given
  type, reason, \<open>hidden\<close> and \<open>active\<close>; it returns the created record or nothing, or
  raises when the call fails outright.
\<close>

definition posted :: "member \<Rightarrow> string \<Rightarrow> string \<Rightarrow> bool \<Rightarrow> bool \<Rightarrow> watch_fields" where
  "posted user type rsn hid act =
     \<lparr>subjectId = member_id user, active = act, kind = type, reason = rsn, hidden = hid\<rparr>"

definition post_infraction ::
  "reply \<Rightarrow> member \<Rightarrow> string \<Rightarrow> string \<Rightarrow> bool \<Rightarrow> bool \<Rightarrow> state \<Rightarrow>
   (error + WatchRecord option) \<times> state" where
  "post_infraction answer user type rsn hid act st =
     (case create answer (posted user type rsn hid act) (backend st) of
        (Inl e, rows) \<Rightarrow> (Inl e, log_event (PostFailed (posted user type rsn hid act)) st)
      | (Inr response, rows) \<Rightarrow>
          (Inr response, log_event (Posted (posted user type rsn hid act) response)
                           (st\<lparr>backend := rows\<rparr>)))"

text \<open>The dictionary built from a list of records, a later record replacing an earlier one.\<close>

definition load_cache :: "WatchRecord list \<Rightarrow> (int \<rightharpoonup> WatchRecord)" where
  "load_cache data = fold (\<lambda>entry m. m(subjectId entry \<mapsto> entry)) data Map.empty"

text \<open>
  Modelled from the spec: \<open>fetch_user_cache\<close> of \<open>watchchannel.py\<close>, not among the
  sources, as the cache's \<open>refresh()\<close>: it fetches all currently active watch records and
  replaces the dictionary; when the backend call fails it returns failure and leaves the
  dictionary as it was.
\<close>

definition fetch_user_cache :: "bool \<Rightarrow> state \<Rightarrow> bool \<times> state" where
  "fetch_user_cache ok st =
     (if ok
      then (True, log_event (Refreshed True)
                    (st\<lparr>watched_users := load_cache (query api_default_params (backend st))\<rparr>))
      else (False, log_event (Refreshed False) st))"

text \<open>\<open>self.watched_users[user.id] = response\<close>, line 80.\<close>

definition cache_put :: "int \<Rightarrow> WatchRecord \<Rightarrow> state \<Rightarrow> state" where
  "cache_put u r st = log_event (CachePut u r) (st\<lparr>watched_users := (watched_users st)(u \<mapsto> r)\<rparr>)"

text \<open>
  Modelled from the spec: \<open>_remove_user\<close> of \<open>watchchannel.py\<close>, not among the sources,
  as the cache's \<open>remove(subjectId)\<close>.
\<close>

definition remove_user :: "int \<Rightarrow> state \<Rightarrow> state" where
  "remove_user u st = log_event (CacheRemoved u) (st\<lparr>watched_users := (watched_users st)(u := None)\<rparr>)"

subsection \<open>The history digest, lines 93-97\<close>

definition digit :: "nat \<Rightarrow> char" where
  "digit d = ''0123456789'' ! d"

text \<open>Python's \<open>str\<close> of a non-negative integer.\<close>

fun str_nat :: "nat \<Rightarrow> string" where
  "str_nat n = (if n < 10 then [digit n] else str_nat (n div 10) @ [digit (n mod 10)])"

declare str_nat.simps [simp del]

definition total :: "WatchRecord list \<Rightarrow> string" where
  "total history = ''('' @ str_nat (length history div 2) @ '' previous infractions in total)''"

definition end_reason :: "WatchRecord list \<Rightarrow> string" where
  "end_reason history = reason (history ! 0)"

definition start_reason :: "WatchRecord list \<Rightarrow> string" where
  "start_reason history = ''Watched: '' @ reason (history ! 1)"

text \<open>
  The text appended to the confirmation message: empty unless the history has more than
  one entry.
\<close>

definition previous_reasons :: "WatchRecord list \<Rightarrow> string" where
  "previous_reasons history =
     (if length history > 1
      then [CHR 0x0A, CHR 0x0A] @ ''User's previous watch reasons '' @ total history @ '':```'' @
           start_reason history @ [CHR 0x0A, CHR 0x0A] @ end_reason history @ ''```''
      else [])"

text \<open>
  The digest in the specification's words: the number of completed episodes, the most
  recent closing reason and the most recent opening reason; none for fewer than two
  entries.
\<close>

record digest =
  episodeCount :: nat
  mostRecentClosingReason :: string
  mostRecentOpeningReason :: string

fun summarise :: "WatchRecord list \<Rightarrow> digest option" where
  "summarise (closing # opening # rest) =
     Some \<lparr>episodeCount = length (closing # opening # rest) div 2,
           mostRecentClosingReason = reason closing,
           mostRecentOpeningReason = ''Watched: '' @ reason opening\<rparr>"
| "summarise _ = None"

definition render :: "digest option \<Rightarrow> string" where
  "render d =
     (case d of
        None \<Rightarrow> []
      | Some g \<Rightarrow>
          [CHR 0x0A, CHR 0x0A] @ ''User's previous watch reasons ('' @ str_nat (episodeCount g) @
          '' previous infractions in total):```'' @ mostRecentOpeningReason g @
          [CHR 0x0A, CHR 0x0A] @ mostRecentClosingReason g @ ''```'')"

subsection \<open>The operations\<close>

text \<open>The texts sent to the channel, as the f-strings of the source compose them.\<close>

definition msg_only_humans :: "Context \<Rightarrow> string" where
  "msg_only_humans ctx =
     '':x: I'm sorry '' @ author ctx @ '', I'm afraid I can't do that. I only watch humans.''"

definition msg_cache_failed :: "member \<Rightarrow> string" where
  "msg_cache_failed user =
     '':x: Updating the user cache failed, can't watch user '' @ member_str user"

definition msg_already_watched :: "member \<Rightarrow> string" where
  "msg_already_watched user = '':x: '' @ member_str user @ '' is already being watched.''"

definition msg_empty_response :: string where
  "msg_empty_response = '':x: Failed to post the infraction: response was empty.''"

definition msg_now_relayed :: "member \<Rightarrow> string" where
  "msg_now_relayed user =
     '':white_check_mark: Messages sent by '' @ member_str user @
     '' will now be relayed to Big Brother.''"

definition msg_no_longer_relayed :: "member \<Rightarrow> string" where
  "msg_no_longer_relayed user =
     '':white_check_mark: Messages sent by '' @ member_str user @ '' will no longer be relayed.''"

definition msg_not_watched :: string where
  "msg_not_watched = '':x: The specified user is currently not being watched.''"

text \<open>The filters of the two queries the operations make for one user.\<close>

definition history_params :: "member \<Rightarrow> params" where
  "history_params user = \<lparr>user__id = Some (member_id user), p_active = False, p_type = ''watch''\<rparr>"

definition active_params :: "int \<Rightarrow> params" where
  "active_params u = \<lparr>user__id = Some u, p_active = True, p_type = ''watch''\<rparr>"

text \<open>\<open>apply_watch\<close>, lines 63-101.\<close>

definition apply_watch :: "responses \<Rightarrow> Context \<Rightarrow> member \<Rightarrow> string \<Rightarrow> state \<Rightarrow> outcome \<times> state" where
  "apply_watch env ctx user rsn st =
     (if bot user
      then (Returned, send (msg_only_humans ctx) st)
      else
        (case fetch_user_cache (refresh_ok env) st of (fetched, st1) \<Rightarrow>
          if \<not> fetched
          then (Returned, send (msg_cache_failed user) st1)
          else if watched_users st1 (member_id user) \<noteq> None
          then (Returned, send (msg_already_watched user) st1)
          else
            (case post_infraction (post_reply env) user ''watch'' rsn True True st1 of
               (Inl e, st2) \<Rightarrow> (Raised e, st2)
             | (Inr None, st2) \<Rightarrow> (Returned, send msg_empty_response st2)
             | (Inr (Some response), st2) \<Rightarrow>
                 (case api_get (history_ok env) (history_params user)
                         (cache_put (member_id user) response st2) of
                    (Inl e, st3) \<Rightarrow> (Raised e, st3)
                  | (Inr history, st3) \<Rightarrow>
                      (Returned,
                       send (msg_now_relayed user @ previous_reasons history) st3)))))"

text \<open>\<open>apply_unwatch\<close>, lines 103-132. \<open>[infraction] = active_watches\<close> raises \<open>ValueError\<close>
  unless the list has exactly one element.\<close>

definition apply_unwatch ::
  "responses \<Rightarrow> Context \<Rightarrow> member \<Rightarrow> string \<Rightarrow> bool \<Rightarrow> state \<Rightarrow> outcome \<times> state" where
  "apply_unwatch env ctx user rsn banned st =
     (case api_get True (active_params (member_id user)) st of
        (Inl e, st1) \<Rightarrow> (Raised e, st1)
      | (Inr active_watches, st1) \<Rightarrow>
          if active_watches \<noteq> []
          then
            (case active_watches of
               [infraction] \<Rightarrow>
                 (case api_patch (patch_ok env) (record_id infraction) False st1 of
                    (Some e, st2) \<Rightarrow> (Raised e, st2)
                  | (None, st2) \<Rightarrow>
                      (case post_infraction (post_reply env) user ''watch'' (''Unwatched: '' @ rsn)
                              True False st2 of
                         (Inl e, st3) \<Rightarrow> (Raised e, st3)
                       | (Inr response, st3) \<Rightarrow>
                           (Returned,
                            remove_user (member_id user)
                              (if \<not> banned then send (msg_no_longer_relayed user) st3 else st3))))
             | _ \<Rightarrow> (Raised ValueError, st1))
          else (Returned, if \<not> banned then send msg_not_watched st1 else st1))"

text \<open>The watch record \<open>apply_watch\<close> posts, line 77.\<close>

definition new_watch :: "member \<Rightarrow> string \<Rightarrow> watch_fields" where
  "new_watch user rsn = posted user ''watch'' rsn True True"

text \<open>The closing audit record \<open>apply_unwatch\<close> posts, line 121.\<close>

definition closing :: "member \<Rightarrow> string \<Rightarrow> watch_fields" where
  "closing user rsn = posted user ''watch'' (''Unwatched: '' @ rsn) True False"

subsection \<open>Observations\<close>

text \<open>The texts sent to the channel, in order.\<close>

fun sent_text :: "event \<Rightarrow> string option" where
  "sent_text (Sent msg) = Some msg"
| "sent_text _ = None"

definition messages :: "state \<Rightarrow> string list" where
  "messages st = List.map_filter sent_text (trace st)"

text \<open>The active watch records the backend holds for a subject, as \<open>apply_unwatch\<close> queries them.\<close>

definition active_watches :: "state \<Rightarrow> int \<Rightarrow> WatchRecord list" where
  "active_watches st u = query (active_params u) (backend st)"

text \<open>Invariant I1 for one subject, and the dictionary's agreement with the backend on it.\<close>

definition at_most_one_active :: "state \<Rightarrow> int \<Rightarrow> bool" where
  "at_most_one_active st u \<longleftrightarrow> length (active_watches st u) \<le> 1"

definition cache_agrees :: "state \<Rightarrow> int \<Rightarrow> bool" where
  "cache_agrees st u \<longleftrightarrow> set_option (watched_users st u) = set (active_watches st u)"

text \<open>The events an operation added to the trace of the state it started from.\<close>

definition new_events :: "state \<Rightarrow> state \<Rightarrow> event list" where
  "new_events st st' = drop (length (trace st)) (trace st')"

fun is_cache_mutation :: "event \<Rightarrow> bool" where
  "is_cache_mutation (CachePut u r) = True"
| "is_cache_mutation (CacheRemoved u) = True"
| "is_cache_mutation _ = False"

text \<open>A successful create of an active watch record for \<open>u\<close>.\<close>

fun watch_created :: "int \<Rightarrow> event \<Rightarrow> bool" where
  "watch_created u (Posted f (Some r)) = (subjectId f = u \<and> active f \<and> kind f = ''watch'')"
| "watch_created u _ = False"

text \<open>A successful patch of a record to \<open>active = False\<close>.\<close>

fun watch_closed :: "event \<Rightarrow> bool" where
  "watch_closed (Patched i a ok) = (\<not> a \<and> ok)"
| "watch_closed _ = False"

text \<open>No \<open>Q\<close> event occurs unless a \<open>P\<close> event has occurred before it.\<close>

fun only_after :: "(event \<Rightarrow> bool) \<Rightarrow> (event \<Rightarrow> bool) \<Rightarrow> event list \<Rightarrow> bool" where
  "only_after P Q [] = True"
| "only_after P Q (e # es) = (if P e then True else \<not> Q e \<and> only_after P Q es)"

fun is_refresh :: "event \<Rightarrow> bool" where
  "is_refresh (Refreshed ok) = True"
| "is_refresh _ = False"

fun is_post :: "event \<Rightarrow> bool" where
  "is_post (Posted f r) = True"
| "is_post (PostFailed f) = True"
| "is_post _ = False"

text \<open>
  The failure paths of \<open>apply_watch\<close>: the three guards (the third is evaluated on the
  refreshed dictionary) and the empty response of the create.
\<close>

definition watch_fails :: "responses \<Rightarrow> member \<Rightarrow> state \<Rightarrow> bool" where
  "watch_fails env user st \<longleftrightarrow>
     bot user \<or> \<not> refresh_ok env \<or>
     watched_users (snd (fetch_user_cache True st)) (member_id user) \<noteq> None \<or>
     post_reply env = Empty"

subsection \<open>Sequential use\<close>

datatype call =
    Watch responses Context member string
  | Unwatch responses Context member string bool

fun step :: "call \<Rightarrow> state \<Rightarrow> state" where
  "step (Watch env ctx user rsn) st = snd (apply_watch env ctx user rsn st)"
| "step (Unwatch env ctx user rsn banned) st = snd (apply_unwatch env ctx user rsn banned st)"

definition run :: "call list \<Rightarrow> state \<Rightarrow> state" where
  "run calls st = fold step calls st"

text \<open>The outcome of a call, and whether it raised after a patch of its own had succeeded.\<close>

fun outcome_of :: "call \<Rightarrow> state \<Rightarrow> outcome" where
  "outcome_of (Watch env ctx user rsn) st = fst (apply_watch env ctx user rsn st)"
| "outcome_of (Unwatch env ctx user rsn banned) st = fst (apply_unwatch env ctx user rsn banned st)"

definition cut_short :: "call \<Rightarrow> state \<Rightarrow> bool" where
  "cut_short c st \<longleftrightarrow>
     outcome_of c st \<noteq> Returned \<and> list_ex watch_closed (new_events st (step c st))"

text \<open>No call of the sequence, run from the given state, is cut short in this way.\<close>

fun uninterrupted :: "call list \<Rightarrow> state \<Rightarrow> bool" where
  "uninterrupted [] st = True"
| "uninterrupted (c # cs) st = (\<not> cut_short c st \<and> uninterrupted cs (step c st))"

subsection \<open>Example inputs\<close>

definition alice :: member where
  "alice = \<lparr>member_id = 7, bot = False, member_str = ''alice#0001''\<rparr>"

definition bob :: member where
  "bob = \<lparr>member_id = 8, bot = False, member_str = ''bob#0002''\<rparr>"

definition robot :: member where
  "robot = \<lparr>member_id = 9, bot = True, member_str = ''robot#0003''\<rparr>"

definition moderator :: Context where
  "moderator = \<lparr>author = ''mod#0004''\<rparr>"

definition backend_up :: responses where
  "backend_up = \<lparr>refresh_ok = True, post_reply = Created, history_ok = True, patch_ok = True\<rparr>"

definition refresh_down :: responses where
  "refresh_down = \<lparr>refresh_ok = False, post_reply = Created, history_ok = True, patch_ok = True\<rparr>"

definition post_down :: responses where
  "post_down = \<lparr>refresh_ok = True, post_reply = Empty, history_ok = True, patch_ok = True\<rparr>"

definition post_failing :: responses where
  "post_failing = \<lparr>refresh_ok = True, post_reply = Failed, history_ok = True, patch_ok = True\<rparr>"

definition history_down :: responses where
  "history_down = \<lparr>refresh_ok = True, post_reply = Created, history_ok = False, patch_ok = True\<rparr>"

definition patch_down :: responses where
  "patch_down = \<lparr>refresh_ok = True, post_reply = Created, history_ok = True, patch_ok = False\<rparr>"

definition watch_row :: "int \<Rightarrow> string \<Rightarrow> bool \<Rightarrow> watch_fields" where
  "watch_row u rsn act = \<lparr>subjectId = u, active = act, kind = ''watch'', reason = rsn, hidden = True\<rparr>"

text \<open>Nothing stored, nothing cached.\<close>

definition fresh_state :: state where
  "fresh_state = \<lparr>backend = [], watched_users = Map.empty, trace = []\<rparr>"

text \<open>Alice is watched and the dictionary knows it.\<close>

definition watched_state :: state where
  "watched_state =
     \<lparr>backend = [watch_row 7 ''spam'' True],
      watched_users = [7 \<mapsto> with_id 0 (watch_row 7 ''spam'' True)],
      trace = []\<rparr>"

text \<open>Alice and Bob are watched and the dictionary knows both.\<close>

definition both_watched :: state where
  "both_watched =
     \<lparr>backend = [watch_row 7 ''spam'' True, watch_row 8 ''flood'' True],
      watched_users = [7 \<mapsto> with_id 0 (watch_row 7 ''spam'' True),
                       8 \<mapsto> with_id 1 (watch_row 8 ''flood'' True)],
      trace = []\<rparr>"

text \<open>Alice is watched on the backend, the dictionary has not been loaded yet.\<close>

definition stale_state :: state where
  "stale_state = \<lparr>backend = [watch_row 7 ''spam'' True], watched_users = Map.empty, trace = []\<rparr>"

text \<open>Two active watch records for Alice, as two interleaved watch commands can leave them.\<close>

definition doubled_state :: state where
  "doubled_state =
     \<lparr>backend = [watch_row 7 ''spam'' True, watch_row 7 ''again'' True],
      watched_users = [7 \<mapsto> with_id 1 (watch_row 7 ''again'' True)],
      trace = []\<rparr>"

definition spam_history :: "WatchRecord list" where
  "spam_history = [with_id 1 (watch_row 7 ''spam'' False), with_id 0 (watch_row 7 ''test watch'' False)]"

section \<open>The backend and the effects, as equations\<close>

lemma with_id_sel [simp]:
  "record_id (with_id i f) = i" "subjectId (with_id i f) = subjectId f"
  "active (with_id i f) = active f" "kind (with_id i f) = kind f"
  "reason (with_id i f) = reason f" "hidden (with_id i f) = hidden f"
  by (simp_all add: with_id_def)

lemma length_with_ids [simp]: "length (with_ids rows) = length rows"
  by (simp add: with_ids_def)

lemma nth_with_ids [simp]: "i < length rows \<Longrightarrow> with_ids rows ! i = with_id i (rows ! i)"
  by (simp add: with_ids_def)

lemma with_ids_append: "with_ids (rows @ [f]) = with_ids rows @ [with_id (length rows) f]"
  by (rule nth_equalityI) (auto simp: nth_append less_Suc_eq)

lemma with_ids_mem: "r \<in> set (with_ids rows) \<Longrightarrow> record_id r < length rows \<and> r = with_ids rows ! record_id r"
  by (auto simp: in_set_conv_nth)

lemma query_mem: "r \<in> set (query p rows) \<Longrightarrow> r \<in> set (with_ids rows) \<and> matches p r"
  by (simp add: query_def)

lemma query_append:
  "query p (rows @ [f]) =
     (if matches p (with_id (length rows) f) then [with_id (length rows) f] else []) @ query p rows"
  by (simp add: query_def with_ids_append)

lemma with_ids_patch:
  assumes "i < length rows"
  shows "with_ids (rows[i := (rows ! i)\<lparr>active := False\<rparr>]) = map (deactivate i) (with_ids rows)"
  using assms by (intro nth_equalityI) (auto simp: deactivate_def with_id_def nth_list_update)

lemma query_patch:
  assumes "i < length rows" "p_active p"
  shows "query p (rows[i := (rows ! i)\<lparr>active := False\<rparr>]) = filter (\<lambda>r. record_id r \<noteq> i) (query p rows)"
proof -
  have m: "matches p (deactivate i r) \<longleftrightarrow> matches p r \<and> record_id r \<noteq> i" for r
    using assms(2) by (auto simp: matches_def deactivate_def)
  have "filter (matches p) (map (deactivate i) xs) = filter (\<lambda>r. record_id r \<noteq> i) (filter (matches p) xs)" for xs
    by (induction xs) (auto simp: m, auto simp: deactivate_def)
  then show ?thesis
    by (simp add: query_def with_ids_patch [OF assms(1)] rev_filter)
qed

lemma load_cache_fold:
  "fold (\<lambda>entry m. m(subjectId entry \<mapsto> entry)) data m0 u =
     (case filter (\<lambda>r. subjectId r = u) (rev data) of [] \<Rightarrow> m0 u | r # rs \<Rightarrow> Some r)"
  by (induction data arbitrary: m0) (auto split: list.splits)

lemma active_watches_default:
  "active_watches st u = filter (\<lambda>r. subjectId r = u) (query api_default_params (backend st))"
proof -
  have "matches (active_params u) =
          (\<lambda>r. matches api_default_params r \<and> subjectId r = u)"
    by (auto simp: fun_eq_iff matches_def api_default_params_def active_params_def)
  then show ?thesis
    by (simp add: active_watches_def query_def rev_filter)
qed

lemma refreshed_lookup:
  "watched_users (snd (fetch_user_cache True st)) u =
     (case rev (active_watches st u) of [] \<Rightarrow> None | r # rs \<Rightarrow> Some r)"
  by (simp add: fetch_user_cache_def log_event_def load_cache_def load_cache_fold
        active_watches_default rev_filter)


lemma refreshed_backend [simp]: "backend (snd (fetch_user_cache ok st)) = backend st"
  by (simp add: fetch_user_cache_def log_event_def)

lemma refreshed_agrees:
  assumes "at_most_one_active st u" "backend st' = backend st"
    "watched_users st' u = watched_users (snd (fetch_user_cache True st)) u"
  shows "cache_agrees st' u"
proof -
  have "length (active_watches st u) \<le> 1" using assms(1) by (simp add: at_most_one_active_def)
  then have "active_watches st u = [] \<or> (\<exists>r. active_watches st u = [r])"
    by (cases "active_watches st u") auto
  moreover have "active_watches st' u = active_watches st u"
    using assms(2) by (simp add: active_watches_def)
  ultimately show ?thesis
    using assms(3) by (auto simp: cache_agrees_def refreshed_lookup)
qed


lemma send_proj [simp]:
  "backend (send msg st) = backend st" "watched_users (send msg st) = watched_users st"
  "trace (send msg st) = trace st @ [Sent msg]"
  by (simp_all add: send_def log_event_def)

lemma fetch_proj [simp]:
  "fst (fetch_user_cache ok st) = ok"
  "trace (snd (fetch_user_cache ok st)) = trace st @ [Refreshed ok]"
  "watched_users (snd (fetch_user_cache False st)) = watched_users st"
  by (simp_all add: fetch_user_cache_def log_event_def)

lemma post_proj [simp]:
  "fst (post_infraction answer user type rsn hid act st) =
     (case answer of
        Created \<Rightarrow> Inr (Some (with_id (length (backend st)) (posted user type rsn hid act)))
      | Empty \<Rightarrow> Inr None
      | Failed \<Rightarrow> Inl BackendError)"
  "backend (snd (post_infraction answer user type rsn hid act st)) =
     (if answer = Created then backend st @ [posted user type rsn hid act] else backend st)"
  "watched_users (snd (post_infraction answer user type rsn hid act st)) = watched_users st"
  "trace (snd (post_infraction answer user type rsn hid act st)) =
     trace st @
     [case answer of
        Created \<Rightarrow> Posted (posted user type rsn hid act)
                     (Some (with_id (length (backend st)) (posted user type rsn hid act)))
      | Empty \<Rightarrow> Posted (posted user type rsn hid act) None
      | Failed \<Rightarrow> PostFailed (posted user type rsn hid act)]"
  by (cases answer; simp add: post_infraction_def create_def log_event_def)+

lemma get_proj [simp]:
  "fst (api_get ok p st) = (if ok then Inr (query p (backend st)) else Inl BackendError)"
  "backend (snd (api_get ok p st)) = backend st"
  "watched_users (snd (api_get ok p st)) = watched_users st"
  "trace (snd (api_get ok p st)) = trace st @ [if ok then Queried p else QueryFailed p]"
  by (simp_all add: api_get_def log_event_def)

lemma patch_proj [simp]:
  "fst (api_patch ok i a st) = (if ok \<and> i < length (backend st) then None else Some BackendError)"
  "backend (snd (api_patch ok i a st)) =
     (if ok \<and> i < length (backend st) then (backend st)[i := (backend st ! i)\<lparr>active := a\<rparr>]
      else backend st)"
  "watched_users (snd (api_patch ok i a st)) = watched_users st"
  "trace (snd (api_patch ok i a st)) = trace st @ [Patched i a (ok \<and> i < length (backend st))]"
  by (simp_all add: api_patch_def patch_def log_event_def)

lemma put_proj [simp]:
  "backend (cache_put u r st) = backend st"
  "watched_users (cache_put u r st) = (watched_users st)(u \<mapsto> r)"
  "trace (cache_put u r st) = trace st @ [CachePut u r]"
  by (simp_all add: cache_put_def log_event_def)

lemma remove_proj [simp]:
  "backend (remove_user u st) = backend st"
  "watched_users (remove_user u st) = (watched_users st)(u := None)"
  "trace (remove_user u st) = trace st @ [CacheRemoved u]"
  by (simp_all add: remove_user_def log_event_def)

section \<open>The paths of \<open>apply_unwatch\<close> and of \<open>apply_watch\<close>\<close>

lemma messages_trace:
  "trace st' = trace st @ evs \<Longrightarrow> messages st' = messages st @ List.map_filter sent_text evs"
  by (simp add: messages_def List.map_filter_def)

lemma new_events_trace: "trace st' = trace st @ evs \<Longrightarrow> new_events st st' = evs"
  by (simp add: new_events_def)

lemma active_record_id:
  assumes "r \<in> set (active_watches st u)"
  shows "record_id r < length (backend st)"
  using assms query_mem [of r "active_params u" "backend st"] with_ids_mem [of r "backend st"]
  by (simp add: active_watches_def)

lemma apply_unwatch_none:
  assumes "active_watches st (member_id user) = []"
  shows "apply_unwatch env ctx user rsn banned st =
           (Returned,
            if \<not> banned
            then send msg_not_watched (snd (api_get True (active_params (member_id user)) st))
            else snd (api_get True (active_params (member_id user)) st))"
  using assms by (simp add: apply_unwatch_def case_prod_beta active_watches_def)

lemma apply_unwatch_many:
  assumes "1 < length (active_watches st (member_id user))"
  shows "apply_unwatch env ctx user rsn banned st =
           (Raised ValueError, snd (api_get True (active_params (member_id user)) st))"
proof -
  obtain a b rest where "active_watches st (member_id user) = a # b # rest"
    using assms by (cases "active_watches st (member_id user)" rule: remdups_adj.cases) auto
  then show ?thesis
    by (simp add: apply_unwatch_def case_prod_beta active_watches_def)
qed

lemma apply_unwatch_patch_failed:
  assumes "active_watches st (member_id user) = [infraction]" "\<not> patch_ok env"
  shows "apply_unwatch env ctx user rsn banned st =
           (Raised BackendError,
            snd (api_patch False (record_id infraction) False
                   (snd (api_get True (active_params (member_id user)) st))))"
  using assms by (simp add: apply_unwatch_def case_prod_beta active_watches_def)

lemma apply_unwatch_post_failed:
  assumes "active_watches st (member_id user) = [infraction]" "patch_ok env"
    "post_reply env = Failed"
  shows "apply_unwatch env ctx user rsn banned st =
           (Raised BackendError,
            snd (post_infraction Failed user ''watch'' (''Unwatched: '' @ rsn) True False
                   (snd (api_patch True (record_id infraction) False
                           (snd (api_get True (active_params (member_id user)) st))))))"
proof -
  have "record_id infraction < length (backend st)"
    using assms(1) active_record_id [of infraction st "member_id user"] by simp
  then show ?thesis
    using assms by (simp add: apply_unwatch_def case_prod_beta active_watches_def)
qed

lemma apply_unwatch_done:
  assumes "active_watches st (member_id user) = [infraction]" "patch_ok env"
    "post_reply env \<noteq> Failed"
  shows "apply_unwatch env ctx user rsn banned st =
           (Returned,
            remove_user (member_id user)
              (if \<not> banned
               then send (msg_no_longer_relayed user)
                      (snd (post_infraction (post_reply env) user ''watch'' (''Unwatched: '' @ rsn)
                              True False
                              (snd (api_patch True (record_id infraction) False
                                      (snd (api_get True (active_params (member_id user)) st))))))
               else snd (post_infraction (post_reply env) user ''watch'' (''Unwatched: '' @ rsn)
                           True False
                           (snd (api_patch True (record_id infraction) False
                                   (snd (api_get True (active_params (member_id user)) st)))))))"
proof -
  have "record_id infraction < length (backend st)"
    using assms(1) active_record_id [of infraction st "member_id user"] by simp
  then show ?thesis
    using assms
    by (cases "post_reply env") (simp_all add: apply_unwatch_def case_prod_beta active_watches_def)
qed

lemma unwatch_cases:
  obtains "active_watches st (member_id user) = []"
  | "1 < length (active_watches st (member_id user))"
  | r where "active_watches st (member_id user) = [r]" "\<not> patch_ok env"
  | r where "active_watches st (member_id user) = [r]" "patch_ok env" "post_reply env = Failed"
  | r where "active_watches st (member_id user) = [r]" "patch_ok env" "post_reply env \<noteq> Failed"
  by (cases "active_watches st (member_id user)" rule: remdups_adj.cases) auto


lemma unwatch_done_effect:
  assumes "active_watches st (member_id user) = [r]" "patch_ok env" "post_reply env \<noteq> Failed"
  shows "fst (apply_unwatch env ctx user rsn banned st) = Returned"
    "backend (snd (apply_unwatch env ctx user rsn banned st)) =
       (backend st)[record_id r := (backend st ! record_id r)\<lparr>active := False\<rparr>] @
       (if post_reply env = Created then [closing user rsn] else [])"
    "watched_users (snd (apply_unwatch env ctx user rsn banned st)) =
       (watched_users st)(member_id user := None)"
    "trace (snd (apply_unwatch env ctx user rsn banned st)) =
       trace st @
       [Queried (active_params (member_id user)), Patched (record_id r) False True,
        Posted (closing user rsn)
          (if post_reply env = Created
           then Some (with_id (length (backend st)) (closing user rsn)) else None)] @
       (if banned then [] else [Sent (msg_no_longer_relayed user)]) @
       [CacheRemoved (member_id user)]"
proof -
  have i: "record_id r < length (backend st)"
    using assms(1) active_record_id [of r st "member_id user"] by simp
  show "fst (apply_unwatch env ctx user rsn banned st) = Returned"
    by (simp add: apply_unwatch_done [OF assms])
  show "backend (snd (apply_unwatch env ctx user rsn banned st)) =
       (backend st)[record_id r := (backend st ! record_id r)\<lparr>active := False\<rparr>] @
       (if post_reply env = Created then [closing user rsn] else [])"
    using i by (simp add: apply_unwatch_done [OF assms] closing_def)
  show "watched_users (snd (apply_unwatch env ctx user rsn banned st)) =
       (watched_users st)(member_id user := None)"
    by (simp add: apply_unwatch_done [OF assms])
  show "trace (snd (apply_unwatch env ctx user rsn banned st)) =
       trace st @
       [Queried (active_params (member_id user)), Patched (record_id r) False True,
        Posted (closing user rsn)
          (if post_reply env = Created
           then Some (with_id (length (backend st)) (closing user rsn)) else None)] @
       (if banned then [] else [Sent (msg_no_longer_relayed user)]) @
       [CacheRemoved (member_id user)]"
    using i assms(3)
    by (cases "post_reply env") (simp_all add: apply_unwatch_done [OF assms] closing_def)
qed

lemma unwatch_patch_failed_effect:
  assumes "active_watches st (member_id user) = [r]" "\<not> patch_ok env"
  shows "fst (apply_unwatch env ctx user rsn banned st) = Raised BackendError"
    "backend (snd (apply_unwatch env ctx user rsn banned st)) = backend st"
    "watched_users (snd (apply_unwatch env ctx user rsn banned st)) = watched_users st"
    "trace (snd (apply_unwatch env ctx user rsn banned st)) =
       trace st @ [Queried (active_params (member_id user)), Patched (record_id r) False False]"
  by (simp_all add: apply_unwatch_patch_failed [OF assms])

lemma unwatch_post_failed_effect:
  assumes "active_watches st (member_id user) = [r]" "patch_ok env" "post_reply env = Failed"
  shows "fst (apply_unwatch env ctx user rsn banned st) = Raised BackendError"
    "backend (snd (apply_unwatch env ctx user rsn banned st)) =
       (backend st)[record_id r := (backend st ! record_id r)\<lparr>active := False\<rparr>]"
    "watched_users (snd (apply_unwatch env ctx user rsn banned st)) = watched_users st"
    "trace (snd (apply_unwatch env ctx user rsn banned st)) =
       trace st @ [Queried (active_params (member_id user)), Patched (record_id r) False True,
                   PostFailed (closing user rsn)]"
proof -
  have i: "record_id r < length (backend st)"
    using assms(1) active_record_id [of r st "member_id user"] by simp
  show "fst (apply_unwatch env ctx user rsn banned st) = Raised BackendError"
    "backend (snd (apply_unwatch env ctx user rsn banned st)) =
       (backend st)[record_id r := (backend st ! record_id r)\<lparr>active := False\<rparr>]"
    "watched_users (snd (apply_unwatch env ctx user rsn banned st)) = watched_users st"
    "trace (snd (apply_unwatch env ctx user rsn banned st)) =
       trace st @ [Queried (active_params (member_id user)), Patched (record_id r) False True,
                   PostFailed (closing user rsn)]"
    using i by (simp_all add: apply_unwatch_post_failed [OF assms] closing_def)
qed

lemma unwatch_none_effect:
  assumes "active_watches st (member_id user) = []"
  shows "fst (apply_unwatch env ctx user rsn banned st) = Returned"
    "backend (snd (apply_unwatch env ctx user rsn banned st)) = backend st"
    "watched_users (snd (apply_unwatch env ctx user rsn banned st)) = watched_users st"
    "trace (snd (apply_unwatch env ctx user rsn banned st)) =
       trace st @ Queried (active_params (member_id user)) #
         (if banned then [] else [Sent msg_not_watched])"
  by (simp_all add: apply_unwatch_none [OF assms])

lemma unwatch_many_effect:
  assumes "1 < length (active_watches st (member_id user))"
  shows "fst (apply_unwatch env ctx user rsn banned st) = Raised ValueError"
    "backend (snd (apply_unwatch env ctx user rsn banned st)) = backend st"
    "watched_users (snd (apply_unwatch env ctx user rsn banned st)) = watched_users st"
    "trace (snd (apply_unwatch env ctx user rsn banned st)) =
       trace st @ [Queried (active_params (member_id user))]"
  by (simp_all add: apply_unwatch_many [OF assms])


lemma refreshed_cache:
  "watched_users (snd (fetch_user_cache True st)) = load_cache (query api_default_params (backend st))"
  by (simp add: fetch_user_cache_def log_event_def)

lemma watch_cases:
  obtains "bot user"
  | "\<not> bot user" "\<not> refresh_ok env"
  | "\<not> bot user" "refresh_ok env"
      "watched_users (snd (fetch_user_cache True st)) (member_id user) \<noteq> None"
  | "\<not> bot user" "refresh_ok env"
      "watched_users (snd (fetch_user_cache True st)) (member_id user) = None"
      "post_reply env = Empty"
  | "\<not> bot user" "refresh_ok env"
      "watched_users (snd (fetch_user_cache True st)) (member_id user) = None"
      "post_reply env = Failed"
  | "\<not> bot user" "refresh_ok env"
      "watched_users (snd (fetch_user_cache True st)) (member_id user) = None"
      "post_reply env = Created" "\<not> history_ok env"
  | "\<not> bot user" "refresh_ok env"
      "watched_users (snd (fetch_user_cache True st)) (member_id user) = None"
      "post_reply env = Created" "history_ok env"
  by (cases "post_reply env") blast+

lemma watch_bot_effect:
  assumes "bot user"
  shows "fst (apply_watch env ctx user rsn st) = Returned"
    "backend (snd (apply_watch env ctx user rsn st)) = backend st"
    "watched_users (snd (apply_watch env ctx user rsn st)) = watched_users st"
    "trace (snd (apply_watch env ctx user rsn st)) = trace st @ [Sent (msg_only_humans ctx)]"
  using assms by (simp_all add: apply_watch_def)

lemma watch_refresh_failed_effect:
  assumes "\<not> bot user" "\<not> refresh_ok env"
  shows "fst (apply_watch env ctx user rsn st) = Returned"
    "backend (snd (apply_watch env ctx user rsn st)) = backend st"
    "watched_users (snd (apply_watch env ctx user rsn st)) = watched_users st"
    "trace (snd (apply_watch env ctx user rsn st)) =
       trace st @ [Refreshed False, Sent (msg_cache_failed user)]"
  using assms by (simp_all add: apply_watch_def case_prod_beta)

lemma watch_already_effect:
  assumes "\<not> bot user" "refresh_ok env"
    "watched_users (snd (fetch_user_cache True st)) (member_id user) \<noteq> None"
  shows "fst (apply_watch env ctx user rsn st) = Returned"
    "backend (snd (apply_watch env ctx user rsn st)) = backend st"
    "watched_users (snd (apply_watch env ctx user rsn st)) =
       watched_users (snd (fetch_user_cache True st))"
    "trace (snd (apply_watch env ctx user rsn st)) =
       trace st @ [Refreshed True, Sent (msg_already_watched user)]"
  using assms by (simp_all add: apply_watch_def case_prod_beta)

lemma watch_empty_effect:
  assumes "\<not> bot user" "refresh_ok env"
    "watched_users (snd (fetch_user_cache True st)) (member_id user) = None"
    "post_reply env = Empty"
  shows "fst (apply_watch env ctx user rsn st) = Returned"
    "backend (snd (apply_watch env ctx user rsn st)) = backend st"
    "watched_users (snd (apply_watch env ctx user rsn st)) =
       watched_users (snd (fetch_user_cache True st))"
    "trace (snd (apply_watch env ctx user rsn st)) =
       trace st @ [Refreshed True, Posted (new_watch user rsn) None, Sent msg_empty_response]"
  using assms by (simp_all add: apply_watch_def case_prod_beta new_watch_def)

lemma watch_post_failed_effect:
  assumes "\<not> bot user" "refresh_ok env"
    "watched_users (snd (fetch_user_cache True st)) (member_id user) = None"
    "post_reply env = Failed"
  shows "fst (apply_watch env ctx user rsn st) = Raised BackendError"
    "backend (snd (apply_watch env ctx user rsn st)) = backend st"
    "watched_users (snd (apply_watch env ctx user rsn st)) =
       watched_users (snd (fetch_user_cache True st))"
    "trace (snd (apply_watch env ctx user rsn st)) =
       trace st @ [Refreshed True, PostFailed (new_watch user rsn)]"
  using assms by (simp_all add: apply_watch_def case_prod_beta new_watch_def)

lemma watch_history_failed_effect:
  assumes "\<not> bot user" "refresh_ok env"
    "watched_users (snd (fetch_user_cache True st)) (member_id user) = None"
    "post_reply env = Created" "\<not> history_ok env"
  shows "fst (apply_watch env ctx user rsn st) = Raised BackendError"
    "backend (snd (apply_watch env ctx user rsn st)) = backend st @ [new_watch user rsn]"
    "watched_users (snd (apply_watch env ctx user rsn st)) =
       (watched_users (snd (fetch_user_cache True st)))
         (member_id user \<mapsto> with_id (length (backend st)) (new_watch user rsn))"
    "trace (snd (apply_watch env ctx user rsn st)) =
       trace st @
       [Refreshed True,
        Posted (new_watch user rsn) (Some (with_id (length (backend st)) (new_watch user rsn))),
        CachePut (member_id user) (with_id (length (backend st)) (new_watch user rsn)),
        QueryFailed (history_params user)]"
  using assms by (simp_all add: apply_watch_def case_prod_beta new_watch_def)

lemma watch_success_effect:
  assumes "\<not> bot user" "refresh_ok env"
    "watched_users (snd (fetch_user_cache True st)) (member_id user) = None"
    "post_reply env = Created" "history_ok env"
  shows "fst (apply_watch env ctx user rsn st) = Returned"
    "backend (snd (apply_watch env ctx user rsn st)) = backend st @ [new_watch user rsn]"
    "watched_users (snd (apply_watch env ctx user rsn st)) =
       (watched_users (snd (fetch_user_cache True st)))
         (member_id user \<mapsto> with_id (length (backend st)) (new_watch user rsn))"
    "trace (snd (apply_watch env ctx user rsn st)) =
       trace st @
       [Refreshed True,
        Posted (new_watch user rsn) (Some (with_id (length (backend st)) (new_watch user rsn))),
        CachePut (member_id user) (with_id (length (backend st)) (new_watch user rsn)),
        Queried (history_params user),
        Sent (msg_now_relayed user @
              previous_reasons (query (history_params user) (backend st @ [new_watch user rsn])))]"
  using assms by (simp_all add: apply_watch_def case_prod_beta new_watch_def)

lemma active_fresh: "active_watches fresh_state u = []"
  by (simp add: active_watches_def query_def with_ids_def fresh_state_def)

lemma active_watched: "active_watches watched_state 7 = [with_id 0 (watch_row 7 ''spam'' True)]"
  by (simp add: active_watches_def query_def with_ids_def matches_def active_params_def
      watched_state_def watch_row_def with_id_def)

lemma active_doubled: "length (active_watches doubled_state 7) = 2"
  by (simp add: active_watches_def query_def with_ids_def matches_def active_params_def
      doubled_state_def watch_row_def with_id_def)

lemma stale_refreshed:
  "watched_users (snd (fetch_user_cache True stale_state)) 7 = Some (with_id 0 (watch_row 7 ''spam'' True))"
  by (simp add: refreshed_cache load_cache_def query_def with_ids_def matches_def
      api_default_params_def stale_state_def watch_row_def with_id_def)

lemma fresh_refreshed: "watched_users (snd (fetch_user_cache True fresh_state)) u = None"
  by (simp add: refreshed_cache load_cache_def query_def with_ids_def fresh_state_def)

lemma active_stale:
  "active_watches stale_state 7 = [with_id 0 (watch_row 7 ''spam'' True)]"
  "active_watches stale_state 8 = []"
  by (simp_all add: active_watches_def query_def with_ids_def matches_def active_params_def
      stale_state_def watch_row_def with_id_def)

lemma active_both:
  "active_watches both_watched 7 = [with_id 0 (watch_row 7 ''spam'' True)]"
  "active_watches both_watched 8 = [with_id 1 (watch_row 8 ''flood'' True)]"
  by (simp_all add: active_watches_def query_def with_ids_def matches_def active_params_def
      both_watched_def watch_row_def with_id_def)

section \<open>Each operation and the invariant of a subject\<close>

lemma active_subject:
  assumes "r \<in> set (active_watches st u)"
  shows "subjectId r = u" "r = with_ids (backend st) ! record_id r"
  using assms query_mem [of r "active_params u" "backend st"] with_ids_mem [of r "backend st"]
  by (simp_all add: active_watches_def matches_def active_params_def)

lemma active_same_backend:
  "backend st' = backend st \<Longrightarrow> active_watches st' u = active_watches st u"
  by (simp add: active_watches_def)

lemma invariant_same:
  assumes "backend st' = backend st" "watched_users st' u = watched_users st u"
    "at_most_one_active st u" "cache_agrees st u"
  shows "at_most_one_active st' u \<and> cache_agrees st' u"
  using assms active_same_backend [OF assms(1), of u]
  by (simp add: at_most_one_active_def cache_agrees_def)

lemma invariant_refreshed:
  assumes "backend st' = backend st"
    "watched_users st' u = watched_users (snd (fetch_user_cache True st)) u"
    "at_most_one_active st u"
  shows "at_most_one_active st' u \<and> cache_agrees st' u"
  using assms refreshed_agrees [of st u st'] active_same_backend [OF assms(1), of u]
  by (simp add: at_most_one_active_def)

lemma active_after_watch:
  assumes "backend st' = backend st @ [new_watch user rsn]"
  shows "active_watches st' u =
           (if u = member_id user then [with_id (length (backend st)) (new_watch user rsn)] else []) @
           active_watches st u"
  using assms
  by (auto simp: active_watches_def query_append matches_def active_params_def new_watch_def posted_def)

lemma refreshed_None:
  "watched_users (snd (fetch_user_cache True st)) u = None \<Longrightarrow> active_watches st u = []"
  by (simp add: refreshed_lookup split: list.splits)

lemma active_after_unwatch:
  assumes "i < length (backend st)"
    "backend st' = (backend st)[i := (backend st ! i)\<lparr>active := False\<rparr>] @
                   (if ok then [closing user rsn] else [])"
  shows "active_watches st' u = filter (\<lambda>r. record_id r \<noteq> i) (active_watches st u)"
  using query_patch [OF assms(1), of "active_params u"]
  by (simp add: active_watches_def assms(2) query_append matches_def active_params_def
      closing_def posted_def)

lemma cut_short_watch: "\<not> cut_short (Watch env ctx user rsn) st"
proof -
  have "\<not> list_ex watch_closed (new_events st (snd (apply_watch env ctx user rsn st)))"
  proof (cases rule: watch_cases [where user = user and env = env and st = st])
    case 1
    show ?thesis using new_events_trace [OF watch_bot_effect(4) [OF 1]] by simp
  next
    case 2
    show ?thesis using new_events_trace [OF watch_refresh_failed_effect(4) [OF 2]] by simp
  next
    case 3
    show ?thesis using new_events_trace [OF watch_already_effect(4) [OF 3]] by simp
  next
    case 4
    show ?thesis using new_events_trace [OF watch_empty_effect(4) [OF 4]] by simp
  next
    case 5
    show ?thesis using new_events_trace [OF watch_post_failed_effect(4) [OF 5]] by simp
  next
    case 6
    show ?thesis using new_events_trace [OF watch_history_failed_effect(4) [OF 6]] by simp
  next
    case 7
    show ?thesis using new_events_trace [OF watch_success_effect(4) [OF 7]] by simp
  qed
  then show ?thesis by (simp add: cut_short_def)
qed

lemma cut_short_unwatch:
  "cut_short (Unwatch env ctx user rsn banned) st \<longleftrightarrow>
     length (active_watches st (member_id user)) = 1 \<and> patch_ok env \<and> post_reply env = Failed"
proof (cases rule: unwatch_cases [where st = st and user = user and env = env])
  case 1
  show ?thesis
    using 1 new_events_trace [OF unwatch_none_effect(4) [OF 1]]
    by (simp add: cut_short_def unwatch_none_effect(1) [OF 1])
next
  case 2
  show ?thesis
    using 2 new_events_trace [OF unwatch_many_effect(4) [OF 2]]
    by (simp add: cut_short_def)
next
  case (3 r)
  show ?thesis
    using 3 new_events_trace [OF unwatch_patch_failed_effect(4) [OF 3]]
    by (simp add: cut_short_def)
next
  case (4 r)
  show ?thesis
    using 4 new_events_trace [OF unwatch_post_failed_effect(4) [OF 4]]
    by (simp add: cut_short_def unwatch_post_failed_effect(1) [OF 4])
next
  case (5 r)
  show ?thesis
    using 5 new_events_trace [OF unwatch_done_effect(4) [OF 5]]
    by (simp add: cut_short_def unwatch_done_effect(1) [OF 5])
qed


lemma one_same:
  "backend st' = backend st \<Longrightarrow> at_most_one_active st u \<Longrightarrow> at_most_one_active st' u"
  using active_same_backend [of st' st u] by (simp add: at_most_one_active_def)

lemma watch_invariant:
  assumes "at_most_one_active st u"
  shows "at_most_one_active (snd (apply_watch env ctx user rsn st)) u \<and>
         (cache_agrees st u \<longrightarrow> cache_agrees (snd (apply_watch env ctx user rsn st)) u)"
proof -
  let ?st' = "snd (apply_watch env ctx user rsn st)"
  let ?r = "with_id (length (backend st)) (new_watch user rsn)"
  have same: ?thesis
    if "backend ?st' = backend st" "watched_users ?st' = watched_users st"
    using invariant_same [OF that(1), of u] that(2) assms one_same [OF that(1) assms] by simp
  have fresh: ?thesis
    if "backend ?st' = backend st" "watched_users ?st' = watched_users (snd (fetch_user_cache True st))"
    using invariant_refreshed [OF that(1) _ assms] that(2) by simp
  have put: ?thesis
    if n: "watched_users (snd (fetch_user_cache True st)) (member_id user) = None"
      and b: "backend ?st' = backend st @ [new_watch user rsn]"
      and c: "watched_users ?st' =
                (watched_users (snd (fetch_user_cache True st)))(member_id user \<mapsto> ?r)"
  proof (cases "u = member_id user")
    case True
    have "active_watches st u = []" using n True by (simp add: refreshed_None)
    then show ?thesis
      using True by (simp add: at_most_one_active_def cache_agrees_def active_after_watch [OF b] c)
  next
    case False
    have a: "active_watches ?st' u = active_watches st u"
      using False by (simp add: active_after_watch [OF b])
    have "cache_agrees (snd (fetch_user_cache True st)) u"
      using refreshed_agrees [OF assms, of "snd (fetch_user_cache True st)"] by simp
    then show ?thesis
      using False assms a active_same_backend [of "snd (fetch_user_cache True st)" st u]
      by (simp add: at_most_one_active_def cache_agrees_def c)
  qed
  show ?thesis
  proof (cases rule: watch_cases [where user = user and env = env and st = st])
    case 1
    show ?thesis by (rule same) (simp_all add: watch_bot_effect [OF 1])
  next
    case 2
    show ?thesis by (rule same) (simp_all add: watch_refresh_failed_effect [OF 2])
  next
    case 3
    show ?thesis by (rule fresh) (simp_all add: watch_already_effect [OF 3])
  next
    case 4
    show ?thesis by (rule fresh) (simp_all add: watch_empty_effect [OF 4])
  next
    case 5
    show ?thesis by (rule fresh) (simp_all add: watch_post_failed_effect [OF 5])
  next
    case 6
    show ?thesis
      by (rule put [OF 6(3)]) (simp_all add: watch_history_failed_effect [OF 6])
  next
    case 7
    show ?thesis
      by (rule put [OF 7(3)]) (simp_all add: watch_success_effect [OF 7])
  qed
qed

lemma unwatch_invariant:
  assumes "at_most_one_active st u"
  shows "at_most_one_active (snd (apply_unwatch env ctx user rsn banned st)) u \<and>
         (cache_agrees st u \<and> \<not> cut_short (Unwatch env ctx user rsn banned) st \<longrightarrow>
            cache_agrees (snd (apply_unwatch env ctx user rsn banned st)) u)"
proof -
  let ?st' = "snd (apply_unwatch env ctx user rsn banned st)"
  have same: ?thesis
    if "backend ?st' = backend st" "watched_users ?st' = watched_users st"
    using invariant_same [OF that(1), of u] that(2) assms one_same [OF that(1) assms] by simp
  have patched: "at_most_one_active ?st' u \<and>
      (u \<noteq> member_id user \<longrightarrow> active_watches ?st' u = active_watches st u) \<and>
      (u = member_id user \<longrightarrow> active_watches ?st' u = [])"
    if r: "active_watches st (member_id user) = [r]"
      and b: "backend ?st' =
                (backend st)[record_id r := (backend st ! record_id r)\<lparr>active := False\<rparr>] @
                (if ok then [closing user rsn] else [])"
    for r ok
  proof -
    have i: "record_id r < length (backend st)"
      using r active_record_id [of r st "member_id user"] by simp
    have a: "active_watches ?st' u = filter (\<lambda>x. record_id x \<noteq> record_id r) (active_watches st u)"
      by (rule active_after_unwatch [OF i b])
    have one: "at_most_one_active ?st' u"
      unfolding at_most_one_active_def a
      using assms [unfolded at_most_one_active_def] by (rule le_trans [OF length_filter_le])
    have own: "active_watches ?st' u = []" if "u = member_id user"
      unfolding a using r that by simp
    have other: "active_watches ?st' u = active_watches st u" if o: "u \<noteq> member_id user"
    proof -
      have s: "subjectId r = member_id user" "r = with_ids (backend st) ! record_id r"
        using active_subject [of r st "member_id user"] r by simp_all
      have "record_id x \<noteq> record_id r" if "x \<in> set (active_watches st u)" for x
      proof
        assume "record_id x = record_id r"
        then have "x = r" using active_subject(2) [OF that] s(2) by simp
        then show False using active_subject(1) [OF that] s(1) o by simp
      qed
      then show ?thesis by (simp add: a)
    qed
    show ?thesis using one own other by blast
  qed
  show ?thesis
  proof (cases rule: unwatch_cases [where st = st and user = user and env = env])
    case 1
    show ?thesis by (rule same) (simp_all add: unwatch_none_effect [OF 1])
  next
    case 2
    show ?thesis by (rule same) (simp_all add: unwatch_many_effect [OF 2])
  next
    case (3 r)
    show ?thesis by (rule same) (simp_all add: unwatch_patch_failed_effect [OF 3])
  next
    case (4 r)
    have "backend ?st' =
            (backend st)[record_id r := (backend st ! record_id r)\<lparr>active := False\<rparr>] @
            (if False then [closing user rsn] else [])"
      by (simp add: unwatch_post_failed_effect(2) [OF 4])
    then have "at_most_one_active ?st' u" using patched [OF 4(1)] by blast
    moreover have "cut_short (Unwatch env ctx user rsn banned) st"
      using 4 by (simp add: cut_short_unwatch)
    ultimately show ?thesis by simp
  next
    case (5 r)
    have b: "backend ?st' =
            (backend st)[record_id r := (backend st ! record_id r)\<lparr>active := False\<rparr>] @
            (if post_reply env = Created then [closing user rsn] else [])"
      by (rule unwatch_done_effect(2) [OF 5])
    note p = patched [OF 5(1) b]
    have c: "watched_users ?st' = (watched_users st)(member_id user := None)"
      by (rule unwatch_done_effect(3) [OF 5])
    show ?thesis
    proof (cases "u = member_id user")
      case True
      then have "active_watches ?st' u = []" "watched_users ?st' u = None"
        using p by (simp_all add: c)
      then show ?thesis using p by (simp add: cache_agrees_def)
    next
      case False
      then have "active_watches ?st' u = active_watches st u" "watched_users ?st' u = watched_users st u"
        using p by (simp_all add: c)
      then show ?thesis using p by (simp add: cache_agrees_def)
    qed
  qed
qed

lemma step_invariant:
  assumes "at_most_one_active st u"
  shows "at_most_one_active (step c st) u \<and>
         (cache_agrees st u \<and> \<not> cut_short c st \<longrightarrow> cache_agrees (step c st) u)"
proof (cases c)
  case (Watch env ctx user rsn)
  then show ?thesis using watch_invariant [OF assms, of env ctx user rsn] by simp
next
  case (Unwatch env ctx user rsn banned)
  then show ?thesis using unwatch_invariant [OF assms, of env ctx user rsn banned] by simp
qed

section \<open>The history digest\<close>

text \<open>
  Claim C4. The text \<open>apply_watch\<close> appends for the inactive history is the digest of
  the specification, rendered: there is a digest exactly when the history has more than
  one entry, its count is \<open>len(history) // 2\<close>, its closing reason is \<open>history[0]\<close>'s
  and its opening reason is \<open>"Watched: "\<close> followed by \<open>history[1]\<close>'s; these are the
  values of \<open>total\<close>, \<open>end_reason\<close> and \<open>start_reason\<close> in the source. For zero or one
  entries there is no digest and nothing is appended.
\<close>

theorem history_digest:
  "(1 < length history \<longrightarrow>
      (\<exists>d. summarise history = Some d \<and> episodeCount d = length history div 2 \<and>
           mostRecentClosingReason d = reason (history ! 0) \<and>
           mostRecentOpeningReason d = ''Watched: '' @ reason (history ! 1) \<and>
           total history = ''('' @ str_nat (episodeCount d) @ '' previous infractions in total)'' \<and>
           end_reason history = mostRecentClosingReason d \<and>
           start_reason history = mostRecentOpeningReason d)) \<and>
   (length history \<le> 1 \<longrightarrow> summarise history = None) \<and>
   previous_reasons history = render (summarise history)"
proof (cases history)
  case Nil
  then show ?thesis by (simp add: previous_reasons_def render_def)
next
  case (Cons c rest)
  show ?thesis
  proof (cases rest)
    case Nil
    with Cons show ?thesis by (simp add: previous_reasons_def render_def)
  next
    case (Cons opn older)
    with \<open>history = c # rest\<close> show ?thesis
      by (simp add: previous_reasons_def render_def total_def end_reason_def start_reason_def)
  qed
qed

theorem history_digest_witness:
  "1 < length spam_history \<and>
   summarise spam_history =
     Some \<lparr>episodeCount = 1, mostRecentClosingReason = ''spam'',
           mostRecentOpeningReason = ''Watched: test watch''\<rparr> \<and>
   previous_reasons spam_history =
     [CHR 0x0A, CHR 0x0A] @
     ''User's previous watch reasons (1 previous infractions in total):```Watched: test watch'' @
     [CHR 0x0A, CHR 0x0A] @ ''spam```'' \<and>
   summarise [with_id 0 (watch_row 7 ''test watch'' False)] = None \<and>
   previous_reasons [with_id 0 (watch_row 7 ''test watch'' False)] = [] \<and>
   summarise [] = None \<and> previous_reasons [] = []"
  using history_digest [of spam_history]
    history_digest [of "[with_id 0 (watch_row 7 ''test watch'' False)]"]
    history_digest [of "[]"]
  by (simp add: spam_history_def render_def with_id_def watch_row_def str_nat.simps digit_def)

section \<open>Unwatching\<close>





text \<open>
  Claim C6. When the query returns no active watch record, \<open>apply_unwatch\<close> sends the
  "not being watched" message exactly when \<open>banned\<close> is false and sends nothing when it
  is true; in both cases the backend and the dictionary are as before, and the query is the
  only backend call.
\<close>

theorem unwatch_not_watched:
  assumes "active_watches st (member_id user) = []"
  shows "fst (apply_unwatch env ctx user rsn banned st) = Returned \<and>
         backend (snd (apply_unwatch env ctx user rsn banned st)) = backend st \<and>
         watched_users (snd (apply_unwatch env ctx user rsn banned st)) = watched_users st \<and>
         new_events st (snd (apply_unwatch env ctx user rsn banned st)) =
           Queried (active_params (member_id user)) #
           (if banned then []
            else [Sent '':x: The specified user is currently not being watched.'']) \<and>
         messages (snd (apply_unwatch env ctx user rsn banned st)) =
           messages st @
           (if banned then [] else ['':x: The specified user is currently not being watched.''])"
  using messages_trace [OF unwatch_none_effect(4) [OF assms]]
    new_events_trace [OF unwatch_none_effect(4) [OF assms]]
  by (simp add: unwatch_none_effect [OF assms] List.map_filter_def msg_not_watched_def)

theorem unwatch_not_watched_witness:
  "active_watches fresh_state (member_id alice) = [] \<and>
   fst (apply_unwatch backend_up moderator alice ''calm'' True fresh_state) = Returned \<and>
   messages (snd (apply_unwatch backend_up moderator alice ''calm'' True fresh_state)) = [] \<and>
   messages (snd (apply_unwatch backend_up moderator alice ''calm'' False fresh_state)) =
     ['':x: The specified user is currently not being watched.''] \<and>
   backend (snd (apply_unwatch backend_up moderator alice ''calm'' False fresh_state)) = []"
proof -
  have h: "active_watches fresh_state (member_id alice) = []" by (rule active_fresh)
  have m: "messages fresh_state = []" "backend fresh_state = []"
    by (simp_all add: messages_def fresh_state_def List.map_filter_def)
  show ?thesis
    using h m unwatch_not_watched [OF h, of backend_up moderator "''calm''" True]
      unwatch_not_watched [OF h, of backend_up moderator "''calm''" False]
    by simp
qed

text \<open>
  Claim C9. When the query returns more than one active watch record, the destructuring
  \<open>[infraction] = active_watches\<close> raises \<open>ValueError\<close>: the query is the only effect, so
  there is no patch, no closing record, no dictionary mutation and no message, and backend
  and dictionary are as before.
\<close>

theorem unwatch_many_raises:
  assumes "1 < length (active_watches st (member_id user))"
  shows "fst (apply_unwatch env ctx user rsn banned st) = Raised ValueError \<and>
         backend (snd (apply_unwatch env ctx user rsn banned st)) = backend st \<and>
         watched_users (snd (apply_unwatch env ctx user rsn banned st)) = watched_users st \<and>
         new_events st (snd (apply_unwatch env ctx user rsn banned st)) =
           [Queried (active_params (member_id user))] \<and>
         messages (snd (apply_unwatch env ctx user rsn banned st)) = messages st"
proof -
  have t: "trace (snd (apply_unwatch env ctx user rsn banned st)) =
             trace st @ [Queried (active_params (member_id user))]"
    by (simp add: apply_unwatch_many [OF assms])
  show ?thesis
    using messages_trace [OF t] new_events_trace [OF t]
    by (simp add: apply_unwatch_many [OF assms] List.map_filter_def)
qed

theorem unwatch_many_raises_witness:
  "1 < length (active_watches doubled_state (member_id alice)) \<and>
   fst (apply_unwatch backend_up moderator alice ''calm'' False doubled_state) = Raised ValueError \<and>
   backend (snd (apply_unwatch backend_up moderator alice ''calm'' False doubled_state)) =
     backend doubled_state \<and>
   messages (snd (apply_unwatch backend_up moderator alice ''calm'' False doubled_state)) = []"
proof -
  have h: "1 < length (active_watches doubled_state (member_id alice))"
    by (simp add: alice_def active_doubled)
  have m: "messages doubled_state = []"
    by (simp add: messages_def doubled_state_def List.map_filter_def)
  show ?thesis
    using h m unwatch_many_raises [OF h, of backend_up moderator "''calm''" False] by simp
qed

text \<open>
  Claim C10. \<open>apply_unwatch\<close> for one user leaves the dictionary's entry of every other
  user as it was, and never calls \<open>fetch_user_cache\<close>.
\<close>

theorem unwatch_frame:
  assumes "u \<noteq> member_id user"
  shows "watched_users (snd (apply_unwatch env ctx user rsn banned st)) u = watched_users st u \<and>
         filter is_refresh (new_events st (snd (apply_unwatch env ctx user rsn banned st))) = []"
proof (cases rule: unwatch_cases [where st = st and user = user and env = env])
  case 1
  show ?thesis
    using new_events_trace [OF unwatch_none_effect(4) [OF 1]]
    by (simp add: unwatch_none_effect(3) [OF 1])
next
  case 2
  show ?thesis
    using new_events_trace [OF unwatch_many_effect(4) [OF 2]]
    by (simp add: unwatch_many_effect(3) [OF 2])
next
  case (3 r)
  show ?thesis
    using new_events_trace [OF unwatch_patch_failed_effect(4) [OF 3]]
    by (simp add: unwatch_patch_failed_effect(3) [OF 3])
next
  case (4 r)
  show ?thesis
    using new_events_trace [OF unwatch_post_failed_effect(4) [OF 4]]
    by (simp add: unwatch_post_failed_effect(3) [OF 4])
next
  case (5 r)
  show ?thesis
    using new_events_trace [OF unwatch_done_effect(4) [OF 5]] assms
    by (simp add: unwatch_done_effect(3) [OF 5])
qed

theorem unwatch_frame_witness:
  "(8::int) \<noteq> member_id alice \<and>
   watched_users both_watched 7 = Some (with_id 0 (watch_row 7 ''spam'' True)) \<and>
   watched_users both_watched 8 = Some (with_id 1 (watch_row 8 ''flood'' True)) \<and>
   watched_users (snd (apply_unwatch backend_up moderator alice ''calm'' False both_watched)) 7 = None \<and>
   watched_users (snd (apply_unwatch backend_up moderator alice ''calm'' False both_watched)) 8 =
     Some (with_id 1 (watch_row 8 ''flood'' True))"
proof -
  have h: "active_watches both_watched (member_id alice) = [with_id 0 (watch_row 7 ''spam'' True)]"
    "patch_ok backend_up" "post_reply backend_up \<noteq> Failed"
    by (simp_all add: alice_def active_both backend_up_def)
  have b: "watched_users both_watched 7 = Some (with_id 0 (watch_row 7 ''spam'' True))"
    "watched_users both_watched 8 = Some (with_id 1 (watch_row 8 ''flood'' True))"
    by (simp_all add: both_watched_def)
  have r: "watched_users (snd (apply_unwatch backend_up moderator alice ''calm'' False both_watched)) 7 = None"
  proof -
    have "member_id alice = 7" by (simp add: alice_def)
    then show ?thesis
      using unwatch_done_effect(3) [OF h, of moderator "''calm''" False] by simp
  qed
  show ?thesis
    using b r unwatch_frame [of 8 alice backend_up moderator "''calm''" False both_watched]
    by (simp add: alice_def)
qed

section \<open>Watching\<close>

text \<open>
  Claim C2, as amended. A rejection by one of the three guards of \<open>apply_watch\<close>
  returns normally with one negative message and no backend write, and leaves the backend
  as it was. For a bot and for a failed refresh the dictionary is as before the call. For
  a user who is already watched the dictionary is the one the successful refresh has just
  loaded from the backend; it is the dictionary from before the call when that one already
  held the backend's active watch records.
\<close>

theorem watch_guards:
  "(bot user \<longrightarrow>
      fst (apply_watch env ctx user rsn st) = Returned \<and>
      new_events st (snd (apply_watch env ctx user rsn st)) = [Sent (msg_only_humans ctx)] \<and>
      backend (snd (apply_watch env ctx user rsn st)) = backend st \<and>
      watched_users (snd (apply_watch env ctx user rsn st)) = watched_users st) \<and>
   (\<not> bot user \<and> \<not> refresh_ok env \<longrightarrow>
      fst (apply_watch env ctx user rsn st) = Returned \<and>
      new_events st (snd (apply_watch env ctx user rsn st)) =
        [Refreshed False, Sent (msg_cache_failed user)] \<and>
      backend (snd (apply_watch env ctx user rsn st)) = backend st \<and>
      watched_users (snd (apply_watch env ctx user rsn st)) = watched_users st) \<and>
   (\<not> bot user \<and> refresh_ok env \<and>
    watched_users (snd (fetch_user_cache True st)) (member_id user) \<noteq> None \<longrightarrow>
      fst (apply_watch env ctx user rsn st) = Returned \<and>
      new_events st (snd (apply_watch env ctx user rsn st)) =
        [Refreshed True, Sent (msg_already_watched user)] \<and>
      backend (snd (apply_watch env ctx user rsn st)) = backend st \<and>
      watched_users (snd (apply_watch env ctx user rsn st)) =
        load_cache (query api_default_params (backend st)) \<and>
      (watched_users st = load_cache (query api_default_params (backend st)) \<longrightarrow>
         watched_users (snd (apply_watch env ctx user rsn st)) = watched_users st))"
  by (simp add: watch_bot_effect watch_refresh_failed_effect watch_already_effect new_events_def
      refreshed_cache)

theorem watch_guards_witness:
  "bot robot \<and>
   new_events fresh_state (snd (apply_watch backend_up moderator robot ''spam'' fresh_state)) =
     [Sent (msg_only_humans moderator)] \<and>
   \<not> bot alice \<and> \<not> refresh_ok refresh_down \<and>
   new_events stale_state (snd (apply_watch refresh_down moderator alice ''spam'' stale_state)) =
     [Refreshed False, Sent (msg_cache_failed alice)] \<and>
   watched_users (snd (apply_watch refresh_down moderator alice ''spam'' stale_state)) =
     watched_users stale_state \<and>
   refresh_ok backend_up \<and>
   watched_users (snd (fetch_user_cache True watched_state)) (member_id alice) \<noteq> None \<and>
   watched_users watched_state = load_cache (query api_default_params (backend watched_state)) \<and>
   new_events watched_state (snd (apply_watch backend_up moderator alice ''spam'' watched_state)) =
     [Refreshed True, Sent (msg_already_watched alice)] \<and>
   backend (snd (apply_watch backend_up moderator alice ''spam'' watched_state)) =
     backend watched_state \<and>
   watched_users (snd (apply_watch backend_up moderator alice ''spam'' watched_state)) =
     watched_users watched_state"
proof -
  have h: "bot robot" "\<not> bot alice" "\<not> refresh_ok refresh_down" "refresh_ok backend_up"
    by (simp_all add: robot_def alice_def refresh_down_def backend_up_def)
  have s: "watched_users watched_state = load_cache (query api_default_params (backend watched_state))"
    by (simp add: load_cache_def query_def with_ids_def matches_def
        api_default_params_def watched_state_def watch_row_def with_id_def)
  have a: "watched_users (snd (fetch_user_cache True watched_state)) (member_id alice) \<noteq> None"
    by (simp add: refreshed_cache s [symmetric]) (simp add: watched_state_def alice_def)
  show ?thesis
    using h s a
      watch_guards [of robot backend_up moderator "''spam''" fresh_state]
      watch_guards [of alice refresh_down moderator "''spam''" stale_state]
      watch_guards [of alice backend_up moderator "''spam''" watched_state]
    by simp
qed

text \<open>
  Claim C2 as stated fails for the third guard: with Alice watched on the backend and a
  dictionary that was not loaded yet, the refresh of guard 2 puts her record in the
  dictionary before guard 3 rejects the request.
\<close>

theorem already_watched_reloads_cache:
  "\<not> bot alice \<and> refresh_ok backend_up \<and>
   watched_users (snd (fetch_user_cache True stale_state)) (member_id alice) \<noteq> None \<and>
   new_events stale_state (snd (apply_watch backend_up moderator alice ''spam'' stale_state)) =
     [Refreshed True, Sent (msg_already_watched alice)] \<and>
   watched_users stale_state (member_id alice) = None \<and>
   watched_users (snd (apply_watch backend_up moderator alice ''spam'' stale_state)) (member_id alice) =
     Some (with_id 0 (watch_row 7 ''spam'' True)) \<and>
   watched_users (snd (apply_watch backend_up moderator alice ''spam'' stale_state)) \<noteq>
     watched_users stale_state"
proof -
  have h: "\<not> bot alice" "refresh_ok backend_up" "member_id alice = 7"
    by (simp_all add: alice_def backend_up_def)
  have n: "watched_users stale_state 7 = None" by (simp add: stale_state_def)
  have a: "watched_users (snd (fetch_user_cache True stale_state)) (member_id alice) \<noteq> None"
    using h stale_refreshed by simp
  have c: "watched_users (snd (apply_watch backend_up moderator alice ''spam'' stale_state)) 7 =
             Some (with_id 0 (watch_row 7 ''spam'' True))"
    by (simp add: watch_already_effect(3) [OF h(1) h(2) a] stale_refreshed)
  have e: "new_events stale_state (snd (apply_watch backend_up moderator alice ''spam'' stale_state)) =
             [Refreshed True, Sent (msg_already_watched alice)]"
    by (rule new_events_trace [OF watch_already_effect(4) [OF h(1) h(2) a]])
  have "watched_users (snd (apply_watch backend_up moderator alice ''spam'' stale_state)) \<noteq>
          watched_users stale_state"
    using n c by (metis option.distinct(1))
  then show ?thesis using h n c e stale_refreshed by simp
qed

text \<open>
  Claim C3. When the guards pass and the create answers with nothing, \<open>apply_watch\<close>
  sends the generic failure message and does not touch the dictionary: it is the
  dictionary from before the create was attempted (the refreshed one), for every user, and
  the backend is unchanged.
\<close>

theorem watch_empty_response:
  assumes "\<not> bot user" "refresh_ok env" "post_reply env = Empty"
    "watched_users (snd (fetch_user_cache True st)) (member_id user) = None"
  shows "fst (apply_watch env ctx user rsn st) = Returned \<and>
         new_events st (snd (apply_watch env ctx user rsn st)) =
           [Refreshed True,
            Posted \<lparr>subjectId = member_id user, active = True, kind = ''watch'', reason = rsn,
                     hidden = True\<rparr> None,
            Sent '':x: Failed to post the infraction: response was empty.''] \<and>
         messages (snd (apply_watch env ctx user rsn st)) =
           messages st @ ['':x: Failed to post the infraction: response was empty.''] \<and>
         backend (snd (apply_watch env ctx user rsn st)) = backend st \<and>
         watched_users (snd (apply_watch env ctx user rsn st)) =
           watched_users (snd (fetch_user_cache True st)) \<and>
         (\<forall>u. (watched_users (snd (apply_watch env ctx user rsn st)) u \<noteq> None) =
              (watched_users (snd (fetch_user_cache True st)) u \<noteq> None))"
  using messages_trace [OF watch_empty_effect(4) [OF assms(1,2,4,3)]]
    new_events_trace [OF watch_empty_effect(4) [OF assms(1,2,4,3)]]
  by (simp add: watch_empty_effect [OF assms(1,2,4,3)] List.map_filter_def msg_empty_response_def
      new_watch_def posted_def)

theorem watch_empty_response_witness:
  "\<not> bot alice \<and> refresh_ok post_down \<and> post_reply post_down = Empty \<and>
   watched_users (snd (fetch_user_cache True fresh_state)) (member_id alice) = None \<and>
   fst (apply_watch post_down moderator alice ''spam'' fresh_state) = Returned \<and>
   messages (snd (apply_watch post_down moderator alice ''spam'' fresh_state)) =
     ['':x: Failed to post the infraction: response was empty.''] \<and>
   backend (snd (apply_watch post_down moderator alice ''spam'' fresh_state)) = [] \<and>
   watched_users (snd (apply_watch post_down moderator alice ''spam'' fresh_state)) (member_id alice) = None"
proof -
  have h: "\<not> bot alice" "refresh_ok post_down" "post_reply post_down = Empty"
    "watched_users (snd (fetch_user_cache True fresh_state)) (member_id alice) = None"
    by (simp_all add: alice_def post_down_def fresh_refreshed)
  have m: "messages fresh_state = []" "backend fresh_state = []"
    by (simp_all add: messages_def fresh_state_def List.map_filter_def)
  show ?thesis
    using h m watch_empty_response [OF h, of moderator "''spam''"] by simp
qed

text \<open>
  Claim C7, as amended. Every failure path of \<open>apply_watch\<close> (the three guards and the
  empty response) ends the operation with exactly one message, which starts with \<open>:x:\<close>
  and is the last effect, after at most one refresh and at most one create, with the
  backend unchanged. The not-watched path of \<open>apply_unwatch\<close> sends its \<open>:x:\<close> message
  exactly when \<open>banned\<close> is false, after its single query; when \<open>banned\<close> is true it sends
  nothing.
\<close>

theorem failure_paths_report:
  "(watch_fails env user st \<longrightarrow>
      fst (apply_watch env ctx user rsn st) = Returned \<and>
      (\<exists>text. messages (snd (apply_watch env ctx user rsn st)) = messages st @ ['':x: '' @ text] \<and>
              last (trace (snd (apply_watch env ctx user rsn st))) = Sent ('':x: '' @ text)) \<and>
      length (filter is_refresh (new_events st (snd (apply_watch env ctx user rsn st)))) \<le> 1 \<and>
      length (filter is_post (new_events st (snd (apply_watch env ctx user rsn st)))) \<le> 1 \<and>
      backend (snd (apply_watch env ctx user rsn st)) = backend st) \<and>
   (active_watches st (member_id user) = [] \<longrightarrow>
      fst (apply_unwatch env ctx user rsn banned st) = Returned \<and>
      messages (snd (apply_unwatch env ctx user rsn banned st)) =
        messages st @ (if banned then [] else [msg_not_watched]) \<and>
      take 3 msg_not_watched = '':x:'' \<and>
      new_events st (snd (apply_unwatch env ctx user rsn banned st)) =
        Queried (active_params (member_id user)) # (if banned then [] else [Sent msg_not_watched]))"
proof -
  have w: "fst (apply_watch env ctx user rsn st) = Returned \<and>
      (\<exists>text. messages (snd (apply_watch env ctx user rsn st)) = messages st @ ['':x: '' @ text] \<and>
              last (trace (snd (apply_watch env ctx user rsn st))) = Sent ('':x: '' @ text)) \<and>
      length (filter is_refresh (new_events st (snd (apply_watch env ctx user rsn st)))) \<le> 1 \<and>
      length (filter is_post (new_events st (snd (apply_watch env ctx user rsn st)))) \<le> 1 \<and>
      backend (snd (apply_watch env ctx user rsn st)) = backend st"
    if "watch_fails env user st"
  proof (cases rule: watch_cases [where user = user and env = env and st = st])
    case 1
    show ?thesis
      using messages_trace [OF watch_bot_effect(4) [OF 1]]
      by (simp add: watch_bot_effect [OF 1] new_events_def List.map_filter_def msg_only_humans_def)
  next
    case 2
    show ?thesis
      using messages_trace [OF watch_refresh_failed_effect(4) [OF 2]]
      by (simp add: watch_refresh_failed_effect [OF 2] new_events_def List.map_filter_def
          msg_cache_failed_def)
  next
    case 3
    show ?thesis
      using messages_trace [OF watch_already_effect(4) [OF 3]]
      by (simp add: watch_already_effect [OF 3] new_events_def List.map_filter_def
          msg_already_watched_def)
  next
    case 4
    show ?thesis
      using messages_trace [OF watch_empty_effect(4) [OF 4]]
      by (simp add: watch_empty_effect [OF 4] new_events_def List.map_filter_def
          msg_empty_response_def)
  next
    case 5
    then show ?thesis using that by (simp add: watch_fails_def)
  next
    case 6
    then show ?thesis using that by (simp add: watch_fails_def)
  next
    case 7
    then show ?thesis using that by (simp add: watch_fails_def)
  qed
  have u: "fst (apply_unwatch env ctx user rsn banned st) = Returned \<and>
      messages (snd (apply_unwatch env ctx user rsn banned st)) =
        messages st @ (if banned then [] else [msg_not_watched]) \<and>
      take 3 msg_not_watched = '':x:'' \<and>
      new_events st (snd (apply_unwatch env ctx user rsn banned st)) =
        Queried (active_params (member_id user)) # (if banned then [] else [Sent msg_not_watched])"
    if n: "active_watches st (member_id user) = []"
    using messages_trace [OF unwatch_none_effect(4) [OF n]]
      new_events_trace [OF unwatch_none_effect(4) [OF n]]
    by (simp add: unwatch_none_effect(1) [OF n] List.map_filter_def msg_not_watched_def)
  show ?thesis using w u by blast
qed

theorem failure_paths_report_witness:
  "watch_fails backend_up robot fresh_state \<and>
   messages (snd (apply_watch backend_up moderator robot ''spam'' fresh_state)) =
     [msg_only_humans moderator] \<and>
   watch_fails post_down alice fresh_state \<and>
   messages (snd (apply_watch post_down moderator alice ''spam'' fresh_state)) = [msg_empty_response] \<and>
   active_watches fresh_state (member_id alice) = [] \<and>
   messages (snd (apply_unwatch backend_up moderator alice ''calm'' False fresh_state)) =
     [msg_not_watched] \<and>
   messages (snd (apply_unwatch backend_up moderator alice ''calm'' True fresh_state)) = []"
proof -
  have h: "watch_fails backend_up robot fresh_state" "watch_fails post_down alice fresh_state"
    "active_watches fresh_state (member_id alice) = []"
    by (simp_all add: watch_fails_def robot_def post_down_def active_fresh)
  have m: "messages fresh_state = []"
    by (simp add: messages_def fresh_state_def List.map_filter_def)
  have r: "bot robot" "\<not> bot alice" "refresh_ok post_down"
    "watched_users (snd (fetch_user_cache True fresh_state)) (member_id alice) = None"
    "post_reply post_down = Empty"
    by (simp_all add: robot_def alice_def post_down_def fresh_refreshed)
  have e: "messages (snd (apply_watch backend_up moderator robot ''spam'' fresh_state)) =
             [msg_only_humans moderator]"
    "messages (snd (apply_watch post_down moderator alice ''spam'' fresh_state)) = [msg_empty_response]"
    using m messages_trace [OF watch_bot_effect(4) [OF r(1)], of backend_up moderator "''spam''" fresh_state]
      messages_trace [OF watch_empty_effect(4) [OF r(2-5)], of moderator "''spam''"]
    by (simp_all add: List.map_filter_def)
  show ?thesis
    using h m e
      failure_paths_report [of backend_up robot fresh_state moderator "''spam''" True]
      failure_paths_report [of post_down alice fresh_state moderator "''spam''" False]
      failure_paths_report [of backend_up alice fresh_state moderator "''calm''" True]
      failure_paths_report [of backend_up alice fresh_state moderator "''calm''" False]
    by simp
qed

text \<open>
  Claim C7 as stated fails for \<open>banned = True\<close>: unwatching a user who is not watched
  then does nothing but the query, and no text reaches the channel.
\<close>

theorem banned_unwatch_is_silent:
  "active_watches fresh_state (member_id alice) = [] \<and>
   fst (apply_unwatch backend_up moderator alice ''calm'' True fresh_state) = Returned \<and>
   new_events fresh_state (snd (apply_unwatch backend_up moderator alice ''calm'' True fresh_state)) =
     [Queried (active_params (member_id alice))] \<and>
   messages (snd (apply_unwatch backend_up moderator alice ''calm'' True fresh_state)) = [] \<and>
   backend (snd (apply_unwatch backend_up moderator alice ''calm'' True fresh_state)) =
     backend fresh_state \<and>
   watched_users (snd (apply_unwatch backend_up moderator alice ''calm'' True fresh_state)) =
     watched_users fresh_state"
proof -
  have n: "active_watches fresh_state (member_id alice) = []" by (rule active_fresh)
  have t: "trace fresh_state = []" by (simp add: fresh_state_def)
  show ?thesis
    using n t by (simp add: apply_unwatch_none [OF n] new_events_def messages_def List.map_filter_def)
qed

section \<open>Write-through order\<close>

text \<open>
  Claim C8, as amended. Among the effects of one \<open>apply_watch\<close> the only put is the put
  of the created record for the user, and it occurs only after the create of an active
  watch record for that user has answered with a record; among the effects of one
  \<open>apply_unwatch\<close> the only removal is the removal of the user, and it occurs only after
  the patch to \<open>active = False\<close> has completed; when the write fails or is not reached
  there is no put and no removal. Apart from the put and the removal, the dictionary is
  changed only by the reload that the refresh of \<open>apply_watch\<close> makes from the backend,
  which comes before the create and also when no write follows; \<open>apply_unwatch\<close> changes
  the dictionary by its removal only.
\<close>

theorem cache_mutations_follow_writes:
  "only_after (watch_created (member_id user)) is_cache_mutation
     (new_events st (snd (apply_watch env ctx user rsn st))) \<and>
   filter is_cache_mutation (new_events st (snd (apply_watch env ctx user rsn st))) =
     (if \<not> bot user \<and> refresh_ok env \<and>
         watched_users (snd (fetch_user_cache True st)) (member_id user) = None \<and>
         post_reply env = Created
      then [CachePut (member_id user) (with_id (length (backend st)) (new_watch user rsn))]
      else []) \<and>
   watched_users (snd (apply_watch env ctx user rsn st)) =
     (if bot user \<or> \<not> refresh_ok env then watched_users st
      else if watched_users (snd (fetch_user_cache True st)) (member_id user) = None \<and>
              post_reply env = Created
      then (load_cache (query api_default_params (backend st)))
             (member_id user \<mapsto> with_id (length (backend st)) (new_watch user rsn))
      else load_cache (query api_default_params (backend st))) \<and>
   only_after watch_closed is_cache_mutation
     (new_events st (snd (apply_unwatch env ctx user rsn banned st))) \<and>
   filter is_cache_mutation (new_events st (snd (apply_unwatch env ctx user rsn banned st))) =
     (if length (active_watches st (member_id user)) = 1 \<and> patch_ok env \<and> post_reply env \<noteq> Failed
      then [CacheRemoved (member_id user)] else []) \<and>
   watched_users (snd (apply_unwatch env ctx user rsn banned st)) =
     (if length (active_watches st (member_id user)) = 1 \<and> patch_ok env \<and> post_reply env \<noteq> Failed
      then (watched_users st)(member_id user := None) else watched_users st)"
proof -
  let ?w = "snd (apply_watch env ctx user rsn st)"
  let ?u = "snd (apply_unwatch env ctx user rsn banned st)"
  have w: "only_after (watch_created (member_id user)) is_cache_mutation (new_events st ?w) \<and>
     filter is_cache_mutation (new_events st ?w) =
       (if \<not> bot user \<and> refresh_ok env \<and>
           watched_users (snd (fetch_user_cache True st)) (member_id user) = None \<and>
           post_reply env = Created
        then [CachePut (member_id user) (with_id (length (backend st)) (new_watch user rsn))]
        else []) \<and>
     watched_users ?w =
       (if bot user \<or> \<not> refresh_ok env then watched_users st
        else if watched_users (snd (fetch_user_cache True st)) (member_id user) = None \<and>
                post_reply env = Created
        then (load_cache (query api_default_params (backend st)))
               (member_id user \<mapsto> with_id (length (backend st)) (new_watch user rsn))
        else load_cache (query api_default_params (backend st)))"
  proof (cases rule: watch_cases [where user = user and env = env and st = st])
    case 1
    show ?thesis
      using 1 new_events_trace [OF watch_bot_effect(4) [OF 1]]
      by (simp add: watch_bot_effect(3) [OF 1])
  next
    case 2
    show ?thesis
      using 2 new_events_trace [OF watch_refresh_failed_effect(4) [OF 2]]
      by (simp add: watch_refresh_failed_effect(3) [OF 2])
  next
    case 3
    show ?thesis
      using 3 new_events_trace [OF watch_already_effect(4) [OF 3]]
      by (simp add: watch_already_effect(3) [OF 3] refreshed_cache)
  next
    case 4
    show ?thesis
      using 4 new_events_trace [OF watch_empty_effect(4) [OF 4]]
      by (simp add: watch_empty_effect(3) [OF 4] refreshed_cache)
  next
    case 5
    show ?thesis
      using 5 new_events_trace [OF watch_post_failed_effect(4) [OF 5]]
      by (simp add: watch_post_failed_effect(3) [OF 5] refreshed_cache)
  next
    case 6
    show ?thesis
      using 6 new_events_trace [OF watch_history_failed_effect(4) [OF 6]]
      by (simp add: watch_history_failed_effect(3) [OF 6] refreshed_cache new_watch_def posted_def)
  next
    case 7
    show ?thesis
      using 7 new_events_trace [OF watch_success_effect(4) [OF 7]]
      by (simp add: watch_success_effect(3) [OF 7] refreshed_cache new_watch_def posted_def)
  qed
  have u: "only_after watch_closed is_cache_mutation (new_events st ?u) \<and>
     filter is_cache_mutation (new_events st ?u) =
       (if length (active_watches st (member_id user)) = 1 \<and> patch_ok env \<and> post_reply env \<noteq> Failed
        then [CacheRemoved (member_id user)] else []) \<and>
     watched_users ?u =
       (if length (active_watches st (member_id user)) = 1 \<and> patch_ok env \<and> post_reply env \<noteq> Failed
        then (watched_users st)(member_id user := None) else watched_users st)"
  proof (cases rule: unwatch_cases [where st = st and user = user and env = env])
    case 1
    show ?thesis
      using 1 new_events_trace [OF unwatch_none_effect(4) [OF 1]]
      by (simp add: unwatch_none_effect(3) [OF 1])
  next
    case 2
    show ?thesis
      using 2 new_events_trace [OF unwatch_many_effect(4) [OF 2]]
      by (simp add: unwatch_many_effect(3) [OF 2])
  next
    case (3 r)
    show ?thesis
      using 3 new_events_trace [OF unwatch_patch_failed_effect(4) [OF 3]]
      by (simp add: unwatch_patch_failed_effect(3) [OF 3])
  next
    case (4 r)
    show ?thesis
      using 4 new_events_trace [OF unwatch_post_failed_effect(4) [OF 4]]
      by (simp add: unwatch_post_failed_effect(3) [OF 4])
  next
    case (5 r)
    show ?thesis
      using 5 new_events_trace [OF unwatch_done_effect(4) [OF 5]]
      by (simp add: unwatch_done_effect(3) [OF 5])
  qed
  show ?thesis using w u by blast
qed


theorem cache_mutations_follow_writes_witness:
  "filter is_cache_mutation
     (new_events fresh_state (snd (apply_watch backend_up moderator alice ''spam'' fresh_state))) =
     [CachePut 7 (with_id 0 (new_watch alice ''spam''))] \<and>
   filter is_cache_mutation
     (new_events fresh_state (snd (apply_watch post_down moderator alice ''spam'' fresh_state))) = [] \<and>
   filter is_cache_mutation
     (new_events fresh_state (snd (apply_watch post_failing moderator alice ''spam'' fresh_state))) = [] \<and>
   filter is_cache_mutation
     (new_events watched_state (snd (apply_unwatch backend_up moderator alice ''calm'' False watched_state))) =
     [CacheRemoved 7] \<and>
   filter is_cache_mutation
     (new_events watched_state (snd (apply_unwatch patch_down moderator alice ''calm'' False watched_state))) =
     [] \<and>
   watched_users (snd (apply_unwatch patch_down moderator alice ''calm'' False watched_state)) =
     watched_users watched_state \<and>
   filter is_cache_mutation
     (new_events fresh_state (snd (apply_unwatch backend_up moderator alice ''calm'' False fresh_state))) = []"
proof -
  have f: "\<not> bot alice" "refresh_ok backend_up" "refresh_ok post_down" "refresh_ok post_failing"
    "post_reply backend_up = Created" "post_reply post_down = Empty"
    "post_reply post_failing = Failed" "patch_ok backend_up" "\<not> patch_ok patch_down"
    "watched_users (snd (fetch_user_cache True fresh_state)) (member_id alice) = None"
    by (simp_all add: alice_def backend_up_def post_down_def post_failing_def patch_down_def
        fresh_refreshed)
  have a: "length (active_watches watched_state (member_id alice)) = 1"
    "length (active_watches fresh_state (member_id alice)) \<noteq> 1"
    "member_id alice = 7" "length (backend fresh_state) = 0"
    by (simp_all add: alice_def active_watched active_fresh) (simp add: fresh_state_def)
  show ?thesis
    using f a
      cache_mutations_follow_writes [of alice fresh_state backend_up moderator "''spam''" False]
      cache_mutations_follow_writes [of alice fresh_state post_down moderator "''spam''" False]
      cache_mutations_follow_writes [of alice fresh_state post_failing moderator "''spam''" False]
      cache_mutations_follow_writes [of alice watched_state backend_up moderator "''calm''" False]
      cache_mutations_follow_writes [of alice watched_state patch_down moderator "''calm''" False]
      cache_mutations_follow_writes [of alice fresh_state backend_up moderator "''calm''" False]
    by simp
qed

text \<open>
  Claim C8 as stated fails for the refresh: with Alice watched on the backend and a
  dictionary that was not loaded yet, \<open>apply_watch\<close> for Alice changes her entry of the
  dictionary and rejects the request, with no backend write at all.
\<close>

theorem refresh_changes_entry_without_write:
  "new_events stale_state (snd (apply_watch backend_up moderator alice ''spam'' stale_state)) =
     [Refreshed True, Sent (msg_already_watched alice)] \<and>
   filter is_post
     (new_events stale_state (snd (apply_watch backend_up moderator alice ''spam'' stale_state))) = [] \<and>
   filter is_cache_mutation
     (new_events stale_state (snd (apply_watch backend_up moderator alice ''spam'' stale_state))) = [] \<and>
   backend (snd (apply_watch backend_up moderator alice ''spam'' stale_state)) = backend stale_state \<and>
   watched_users stale_state (member_id alice) = None \<and>
   watched_users (snd (apply_watch backend_up moderator alice ''spam'' stale_state)) (member_id alice) =
     Some (with_id 0 (watch_row 7 ''spam'' True))"
proof -
  have h: "\<not> bot alice" "refresh_ok backend_up" "member_id alice = 7"
    by (simp_all add: alice_def backend_up_def)
  have a: "watched_users (snd (fetch_user_cache True stale_state)) (member_id alice) \<noteq> None"
    using h stale_refreshed by simp
  have n: "watched_users stale_state 7 = None" by (simp add: stale_state_def)
  note e = watch_already_effect [OF h(1) h(2) a, of moderator "''spam''"]
  show ?thesis
    using h(3) n new_events_trace [OF e(4)] e(2) e(3) stale_refreshed by simp
qed

section \<open>Invariant I1 under sequential use\<close>

text \<open>
  Claim C1, as amended. Take any subject and any state in which the backend holds at most
  one active watch record for it. After any finite sequence of \<open>apply_watch\<close> and
  \<open>apply_unwatch\<close> calls run one after the other, for any users and whatever the backend
  answers or fails to answer, the backend still holds at most one. If moreover the
  dictionary's entry for the subject agrees with the backend's active watch records for
  it at the start, and no call of the sequence is cut short by an outright failure after
  its patch has completed, the entry agrees with them at the end.
\<close>

theorem sequential_invariant:
  assumes "at_most_one_active st u"
  shows "at_most_one_active (run calls st) u \<and>
         (cache_agrees st u \<and> uninterrupted calls st \<longrightarrow> cache_agrees (run calls st) u)"
  using assms
proof (induction calls arbitrary: st)
  case Nil
  then show ?case by (simp add: run_def)
next
  case (Cons c calls)
  have s: "at_most_one_active (step c st) u"
    "cache_agrees st u \<and> \<not> cut_short c st \<longrightarrow> cache_agrees (step c st) u"
    using step_invariant [OF Cons.prems, of c] by simp_all
  have r: "run (c # calls) st = run calls (step c st)" by (simp add: run_def)
  show ?case using Cons.IH [OF s(1)] s(2) by (simp add: r)
qed

theorem sequential_invariant_witness:
  "at_most_one_active watched_state 7 \<and> cache_agrees watched_state 7 \<and>
   uninterrupted
     [Unwatch patch_down moderator alice ''calm'' False,
      Unwatch backend_up moderator alice ''calm'' False,
      Watch post_failing moderator alice ''again'',
      Watch backend_up moderator alice ''again'',
      Watch history_down moderator bob ''flood'',
      Unwatch post_down moderator bob ''calm'' True] watched_state \<and>
   at_most_one_active
     (run [Unwatch patch_down moderator alice ''calm'' False,
           Unwatch backend_up moderator alice ''calm'' False,
           Watch post_failing moderator alice ''again'',
           Watch backend_up moderator alice ''again'',
           Watch history_down moderator bob ''flood'',
           Unwatch post_down moderator bob ''calm'' True] watched_state) 7 \<and>
   cache_agrees
     (run [Unwatch patch_down moderator alice ''calm'' False,
           Unwatch backend_up moderator alice ''calm'' False,
           Watch post_failing moderator alice ''again'',
           Watch backend_up moderator alice ''again'',
           Watch history_down moderator bob ''flood'',
           Unwatch post_down moderator bob ''calm'' True] watched_state) 7"
proof -
  have h: "at_most_one_active watched_state 7" "cache_agrees watched_state 7"
    by (simp_all add: at_most_one_active_def cache_agrees_def active_watched)
      (simp add: watched_state_def)
  have e: "\<not> patch_ok patch_down" "post_reply backend_up = Created" "post_reply post_down = Empty"
    by (simp_all add: patch_down_def backend_up_def post_down_def)
  have u: "uninterrupted
     [Unwatch patch_down moderator alice ''calm'' False,
      Unwatch backend_up moderator alice ''calm'' False,
      Watch post_failing moderator alice ''again'',
      Watch backend_up moderator alice ''again'',
      Watch history_down moderator bob ''flood'',
      Unwatch post_down moderator bob ''calm'' True] watched_state"
    using e by (simp add: cut_short_watch cut_short_unwatch)
  show ?thesis
    using h u sequential_invariant [OF h(1)] by simp
qed

text \<open>
  Claim C1 as stated assumes nothing of the dictionary at the start and fails then: with
  Alice watched on the backend and a dictionary that was not loaded yet, unwatching Bob,
  who is not watched, changes nothing, and the dictionary still lacks Alice.
\<close>

theorem stale_cache_stays_stale:
  "at_most_one_active stale_state 7 \<and>
   active_watches (run [Unwatch backend_up moderator bob ''calm'' False] stale_state) 7 =
     [with_id 0 (watch_row 7 ''spam'' True)] \<and>
   at_most_one_active (run [Unwatch backend_up moderator bob ''calm'' False] stale_state) 7 \<and>
   watched_users (run [Unwatch backend_up moderator bob ''calm'' False] stale_state) 7 = None \<and>
   \<not> cache_agrees (run [Unwatch backend_up moderator bob ''calm'' False] stale_state) 7"
proof -
  let ?st' = "run [Unwatch backend_up moderator bob ''calm'' False] stale_state"
  have n: "active_watches stale_state (member_id bob) = []"
    by (simp add: bob_def active_stale)
  have b: "backend ?st' = backend stale_state" "watched_users ?st' = watched_users stale_state"
    by (simp_all add: run_def apply_unwatch_none [OF n])
  have a: "active_watches ?st' 7 = [with_id 0 (watch_row 7 ''spam'' True)]"
    using b(1) by (simp add: active_watches_def active_stale(1) [unfolded active_watches_def])
  have c: "watched_users ?st' 7 = None"
    by (simp add: b(2)) (simp add: stale_state_def)
  show ?thesis
    using a c by (simp add: at_most_one_active_def cache_agrees_def active_stale)
qed

text \<open>
  The second condition is needed as well: \<open>apply_unwatch\<close> has no handler around lines
  116 to 127, so a create of the closing record that fails outright after the patch leaves
  Alice in the dictionary with no active record on the backend.
\<close>

theorem interrupted_unwatch_keeps_entry:
  "at_most_one_active watched_state 7 \<and> cache_agrees watched_state 7 \<and>
   outcome_of (Unwatch post_failing moderator alice ''calm'' False) watched_state =
     Raised BackendError \<and>
   cut_short (Unwatch post_failing moderator alice ''calm'' False) watched_state \<and>
   active_watches (run [Unwatch post_failing moderator alice ''calm'' False] watched_state) 7 = [] \<and>
   watched_users (run [Unwatch post_failing moderator alice ''calm'' False] watched_state) 7 =
     Some (with_id 0 (watch_row 7 ''spam'' True)) \<and>
   \<not> cache_agrees (run [Unwatch post_failing moderator alice ''calm'' False] watched_state) 7"
proof -
  let ?st' = "run [Unwatch post_failing moderator alice ''calm'' False] watched_state"
  have h: "at_most_one_active watched_state 7" "cache_agrees watched_state 7"
    by (simp_all add: at_most_one_active_def cache_agrees_def active_watched)
      (simp add: watched_state_def)
  have a: "active_watches watched_state (member_id alice) = [with_id 0 (watch_row 7 ''spam'' True)]"
    "patch_ok post_failing" "post_reply post_failing = Failed"
    by (simp_all add: alice_def active_watched post_failing_def)
  note e = unwatch_post_failed_effect [OF a, of moderator "''calm''" False]
  have s: "?st' = snd (apply_unwatch post_failing moderator alice ''calm'' False watched_state)"
    by (simp add: run_def)
  have c: "cut_short (Unwatch post_failing moderator alice ''calm'' False) watched_state"
    using a by (simp add: cut_short_unwatch)
  have w: "watched_users ?st' 7 = Some (with_id 0 (watch_row 7 ''spam'' True))"
    by (simp add: s e(3)) (simp add: watched_state_def)
  have "backend ?st' = [watch_row 7 ''spam'' False]"
    by (simp add: s e(2)) (simp add: watched_state_def watch_row_def)
  then have n: "active_watches ?st' 7 = []"
    by (simp add: active_watches_def query_def with_ids_def matches_def active_params_def
        watch_row_def with_id_def)
  show ?thesis
    using h c w n e(1) by (simp add: cache_agrees_def)
qed

end
